theory Spec2Isabelle
  imports Main "HOL-Library.Char_ord" "HOL-Library.List_Lexorder" "HOL-Library.Product_Lexorder"
begin

section \<open>JavaScript values and objects\<close>

text \<open>
  The values that flow through the controller and the entity: request fields, query
  parameters and table cells. A \<open>Date\<close> carries its instant (milliseconds since the
  epoch); \<open>InvalidDate\<close> is what \<^verbatim>\<open>new Date("garbage")\<close> yields.
\<close>

datatype jsval = Undefined | Null | JBool bool | Num int | Str string | Date int | InvalidDate

fun truthy :: "jsval \<Rightarrow> bool" where
  "truthy Undefined = False"
| "truthy Null = False"
| "truthy (JBool b) = b"
| "truthy (Num n) = (n \<noteq> 0)"
| "truthy (Str s) = (s \<noteq> [])"
| "truthy (Date t) = True"
| "truthy InvalidDate = True"

fun nullish :: "jsval \<Rightarrow> bool" where
  "nullish Undefined = True"
| "nullish Null = True"
| "nullish v = False"

text \<open>
  An object is its list of own properties in insertion order. Assigning to a key that
  exists keeps its position, assigning to a new key appends it.
\<close>

type_synonym 'v obj = "(string \<times> 'v) list"

fun set_prop :: "string \<Rightarrow> 'v \<Rightarrow> 'v obj \<Rightarrow> 'v obj" where
  "set_prop k v [] = [(k, v)]"
| "set_prop k v ((k', v') # ps) =
     (if k' = k then (k, v) # ps else (k', v') # set_prop k v ps)"

definition get_prop :: "string \<Rightarrow> 'v obj \<Rightarrow> 'v option" where
  "get_prop k ob = map_of ob k"

text \<open>Property access \<^verbatim>\<open>ob.k\<close>: a missing property reads as \<open>undefined\<close>.\<close>

definition field :: "string \<Rightarrow> jsval obj \<Rightarrow> jsval" where
  "field k ob = (case get_prop k ob of None \<Rightarrow> Undefined | Some v \<Rightarrow> v)"

text \<open>The object spread \<^verbatim>\<open>{ ...a, ...b }\<close>.\<close>

definition spread :: "'v obj \<Rightarrow> 'v obj \<Rightarrow> 'v obj" where
  "spread a b = fold (\<lambda>(k, v) acc. set_prop k v acc) b a"

section \<open>The case converter (utils)\<close>

text \<open>
  Modelled from the spec: the module \<^verbatim>\<open>utils\<close> (\<open>camelToSnake\<close>, \<open>snakeToCamel\<close>,
  \<open>convertToCase\<close>, \<open>createUTCDate\<close>) is imported by both source files and is not part of
  the sources at hand. Section 4.1 of the specification: "given a mapping from string keys
  to arbitrary values and a per-key string transform function, produce a new mapping with
  every key transformed, values untouched. Two transforms: snake to camel and camel to
  snake, each a pure string rule (split on \<open>_\<close> / on uppercase boundary, rejoin)."
\<close>

definition is_upper :: "char \<Rightarrow> bool" where
  "is_upper c = (65 \<le> (of_char c :: nat) \<and> (of_char c :: nat) \<le> 90)"

definition is_lower :: "char \<Rightarrow> bool" where
  "is_lower c = (97 \<le> (of_char c :: nat) \<and> (of_char c :: nat) \<le> 122)"

definition toUpperCase :: "char \<Rightarrow> char" where
  "toUpperCase c = (if is_lower c then char_of ((of_char c :: nat) - 32) else c)"

definition toLowerCase :: "char \<Rightarrow> char" where
  "toLowerCase c = (if is_upper c then char_of ((of_char c :: nat) + 32) else c)"

text \<open>Splitting at every occurrence of a separator character (the separator is dropped).\<close>

fun split_on :: "char \<Rightarrow> string \<Rightarrow> string list" where
  "split_on d [] = [[]]"
| "split_on d (c # cs) =
     (if c = d then [] # split_on d cs
      else (case split_on d cs of [] \<Rightarrow> [[c]] | w # ws \<Rightarrow> (c # w) # ws))"

text \<open>Splitting at every uppercase boundary: a new word starts before each uppercase letter.\<close>

fun split_upper :: "string \<Rightarrow> string list" where
  "split_upper [] = [[]]"
| "split_upper [c] = [[c]]"
| "split_upper (c # d # cs) =
     (if is_upper d then [c] # split_upper (d # cs)
      else (case split_upper (d # cs) of [] \<Rightarrow> [[c]] | w # ws \<Rightarrow> (c # w) # ws))"

fun join_with :: "string \<Rightarrow> string list \<Rightarrow> string" where
  "join_with sep [] = []"
| "join_with sep [w] = w"
| "join_with sep (w # v # ws) = w @ sep @ join_with sep (v # ws)"

fun capitalize :: "string \<Rightarrow> string" where
  "capitalize [] = []"
| "capitalize (c # cs) = toUpperCase c # cs"

fun uncapitalize :: "string \<Rightarrow> string" where
  "uncapitalize [] = []"
| "uncapitalize (c # cs) = toLowerCase c # cs"

text \<open>Modelled from the spec: \<open>snakeToCamel\<close>, split on \<open>_\<close> and rejoin in camel case.\<close>

definition snakeToCamel :: "string \<Rightarrow> string" where
  "snakeToCamel s =
     (case split_on (CHR ''_'') s of [] \<Rightarrow> [] | w # ws \<Rightarrow> w @ concat (map capitalize ws))"

text \<open>Modelled from the spec: \<open>camelToSnake\<close>, split on the uppercase boundaries and rejoin
  with \<open>_\<close> in lower case.\<close>

definition camelToSnake :: "string \<Rightarrow> string" where
  "camelToSnake s = join_with ''_'' (map uncapitalize (split_upper s))"

text \<open>Modelled from the spec: \<open>convertToCase\<close>, a new mapping with every key transformed and
  the values untouched.\<close>

definition convertToCase :: "(string \<Rightarrow> string) \<Rightarrow> 'v obj \<Rightarrow> 'v obj" where
  "convertToCase f ob = fold (\<lambda>(k, v) acc. set_prop (f k) v acc) ob []"

text \<open>
  Keys composed of lowercase ASCII words: a word is a non-empty string of the letters
  \<open>a\<close> to \<open>z\<close>; a compound key is written in camel case or in snake case.
\<close>

definition lower_word :: "string \<Rightarrow> bool" where
  "lower_word w = (w \<noteq> [] \<and> list_all is_lower w)"

definition camel_key :: "string list \<Rightarrow> string" where
  "camel_key ws = (case ws of [] \<Rightarrow> [] | w # vs \<Rightarrow> w @ concat (map capitalize vs))"

definition snake_key :: "string list \<Rightarrow> string" where
  "snake_key ws = join_with ''_'' ws"

text \<open>A mapping given by the words of its keys: every key has at least one word, every
  word is a lowercase word, and no key occurs twice.\<close>

definition words_ok :: "(string list \<times> 'v) list \<Rightarrow> bool" where
  "words_ok kws =
     (list_all (\<lambda>(ws, v). ws \<noteq> [] \<and> list_all lower_word ws) kws \<and> distinct (map fst kws))"

definition camel_obj :: "(string list \<times> 'v) list \<Rightarrow> 'v obj" where
  "camel_obj kws = map (\<lambda>(ws, v). (camel_key ws, v)) kws"

definition snake_obj :: "(string list \<times> 'v) list \<Rightarrow> 'v obj" where
  "snake_obj kws = map (\<lambda>(ws, v). (snake_key ws, v)) kws"

section \<open>Runtime: errors, statements, responses and effects\<close>

text \<open>
  An exception is a value. \<open>DbError\<close> is what the database driver rejects a promise with,
  \<open>TypeError\<close> what the JavaScript runtime throws. \<open>error_text\<close> is the rendering used by
  the template literal \<^verbatim>\<open>`${error}`\<close>.
\<close>

datatype error = DbError string | TypeError string

fun error_text :: "error \<Rightarrow> string" where
  "error_text (DbError m) = ''PostgresError: '' @ m"
| "error_text (TypeError m) = ''TypeError: '' @ m"

text \<open>
  The five statements the entity sends, with the values and fragments interpolated into
  each template:
  \<^item> \<open>Insert cols\<close>: \<^verbatim>\<open>INSERT INTO todos ${sql(cols)} RETURNING *\<close>;
  \<^item> \<open>SelectById v\<close>: \<^verbatim>\<open>SELECT * FROM todos WHERE id = ${v}\<close>;
  \<^item> \<open>SelectAll wh ob dir\<close>: \<^verbatim>\<open>SELECT * FROM todos\<close> followed by the three optional
    fragments \<^verbatim>\<open>WHERE status = ${wh}\<close>, \<^verbatim>\<open>ORDER BY ${ob}\<close> and the direction keyword
    (\<open>None\<close> is the empty fragment);
  \<^item> \<open>Update cols t v\<close>: \<^verbatim>\<open>UPDATE todos SET ${sql(cols)}, edited_at = ${t} WHERE id = ${v} RETURNING *\<close>;
  \<^item> \<open>Delete v\<close>: \<^verbatim>\<open>DELETE FROM todos WHERE id = ${v}\<close>.
\<close>

datatype query =
    Insert "jsval obj"
  | SelectById jsval
  | SelectAll "jsval option" "string option" "string option"
  | Update "jsval obj" jsval jsval
  | Delete jsval

record result =
  rows :: "jsval obj list"
  count :: nat

text \<open>Modelled from the spec: the \<open>StatusCode\<close> enumeration and the response envelope
  \<open>{statusCode, message, payload?}\<close> of section 6 (the router's \<open>Response\<close> module is not
  part of the sources at hand).\<close>

datatype StatusCode = OK | Created | BadRequest | NotFound | InternalServerError

fun status_number :: "StatusCode \<Rightarrow> nat" where
  "status_number OK = 200"
| "status_number Created = 201"
| "status_number BadRequest = 400"
| "status_number NotFound = 404"
| "status_number InternalServerError = 500"

datatype payload = NoPayload | TodoPayload "jsval obj" | TodosPayload "jsval obj list"

record response =
  statusCode :: StatusCode
  message :: string
  payload :: payload

text \<open>What a handler does to the outside: calls on the connection pool, lines written
  with \<open>console.error\<close>, and responses handed to \<open>res.send\<close>, in the order they happen.\<close>

datatype event = DbReserve | DbQuery query | DbRelease | ConsoleError string | Send response

text \<open>
  The world a handler runs in: the state behind the database driver, the clock (the
  instant returned by the \<open>n\<close>-th reading), the number of readings taken so far, the date
  parser of the runtime, and the trace of events.
\<close>

record 's world =
  store :: 's
  clock :: "nat \<Rightarrow> int"
  ticks :: nat
  date_parse :: "string \<Rightarrow> int option"
  events :: "event list"

text \<open>An asynchronous computation: it runs on a world and either throws (\<open>Inl\<close>) or
  returns (\<open>Inr\<close>), leaving a new world. \<open>bindE\<close> is \<open>await\<close> followed by the rest of the
  function, \<open>catchE\<close> is \<open>try { } catch (error) { }\<close>.\<close>

type_synonym ('s, 'a) io = "'s world \<Rightarrow> (error + 'a) \<times> 's world"

definition returnE :: "'a \<Rightarrow> ('s, 'a) io" where
  "returnE x = (\<lambda>w. (Inr x, w))"

definition throwE :: "error \<Rightarrow> ('s, 'a) io" where
  "throwE e = (\<lambda>w. (Inl e, w))"

definition bindE :: "('s, 'a) io \<Rightarrow> ('a \<Rightarrow> ('s, 'b) io) \<Rightarrow> ('s, 'b) io" where
  "bindE m f = (\<lambda>w. case m w of (Inl e, w') \<Rightarrow> (Inl e, w') | (Inr x, w') \<Rightarrow> f x w')"

definition catchE :: "('s, 'a) io \<Rightarrow> (error \<Rightarrow> ('s, 'a) io) \<Rightarrow> ('s, 'a) io" where
  "catchE m h = (\<lambda>w. case m w of (Inl e, w') \<Rightarrow> h e w' | (Inr x, w') \<Rightarrow> (Inr x, w'))"

definition emit :: "event \<Rightarrow> ('s, unit) io" where
  "emit ev = (\<lambda>w. (Inr (), w\<lparr>events := events w @ [ev]\<rparr>))"

definition console_error :: "string \<Rightarrow> ('s, unit) io" where
  "console_error msg = emit (ConsoleError msg)"

definition res_send :: "response \<Rightarrow> ('s, unit) io" where
  "res_send r = emit (Send r)"

text \<open>The responses sent so far, and the lines logged so far.\<close>

fun sends :: "event list \<Rightarrow> response list" where
  "sends [] = []"
| "sends (Send r # es) = r # sends es"
| "sends (e # es) = sends es"

fun logs :: "event list \<Rightarrow> string list" where
  "logs [] = []"
| "logs (ConsoleError m # es) = m # logs es"
| "logs (e # es) = logs es"

fun is_db_event :: "event \<Rightarrow> bool" where
  "is_db_event DbReserve = True"
| "is_db_event (DbQuery q) = True"
| "is_db_event DbRelease = True"
| "is_db_event e = False"

text \<open>A computation is quiet when it neither sends a response nor writes a log line.\<close>

definition quiet :: "('s, 'a) io \<Rightarrow> bool" where
  "quiet m = (\<forall>w. sends (events (snd (m w))) = sends (events w)
                \<and> logs (events (snd (m w))) = logs (events w))"

text \<open>A computation only adds to the trace.\<close>

definition grows :: "('s, 'a) io \<Rightarrow> bool" where
  "grows m = (\<forall>w. \<exists>es. events (snd (m w)) = events w @ es)"

text \<open>
  The database driver, \<^verbatim>\<open>postgres.Sql\<close>: reserving a connection, running a statement on
  it and releasing it. Each may reject; each may change the state behind the driver.
\<close>

record 's Sql =
  reserve :: "'s \<Rightarrow> error option \<times> 's"
  run :: "query \<Rightarrow> 's \<Rightarrow> (error + result) \<times> 's"
  release :: "'s \<Rightarrow> error option \<times> 's"

definition sql_reserve :: "'s Sql \<Rightarrow> ('s, unit) io" where
  "sql_reserve db = (\<lambda>w.
     case reserve db (store w) of
       (None, s) \<Rightarrow> (Inr (), w\<lparr>store := s, events := events w @ [DbReserve]\<rparr>)
     | (Some e, s) \<Rightarrow> (Inl e, w\<lparr>store := s, events := events w @ [DbReserve]\<rparr>))"

definition connection :: "'s Sql \<Rightarrow> query \<Rightarrow> ('s, result) io" where
  "connection db q = (\<lambda>w.
     case run db q (store w) of
       (r, s) \<Rightarrow> (r, w\<lparr>store := s, events := events w @ [DbQuery q]\<rparr>))"

definition connection_release :: "'s Sql \<Rightarrow> ('s, unit) io" where
  "connection_release db = (\<lambda>w.
     case release db (store w) of
       (None, s) \<Rightarrow> (Inr (), w\<lparr>store := s, events := events w @ [DbRelease]\<rparr>)
     | (Some e, s) \<Rightarrow> (Inl e, w\<lparr>store := s, events := events w @ [DbRelease]\<rparr>))"

text \<open>Modelled from the spec: \<open>createUTCDate\<close> of the module \<^verbatim>\<open>utils\<close>, "current UTC time"
  when called without an argument (one reading of the clock), the given date otherwise.\<close>

definition createUTCDate :: "jsval option \<Rightarrow> ('s, jsval) io" where
  "createUTCDate d = (\<lambda>w.
     case d of
       None \<Rightarrow> (Inr (Date (clock w (ticks w))), w\<lparr>ticks := Suc (ticks w)\<rparr>)
     | Some v \<Rightarrow> (Inr v, w))"

text \<open>
  A JavaScript \<open>Date\<close> holds a time value of at most 8.64e15 milliseconds on either side of
  the epoch; a time value outside that range gives an invalid date.
\<close>

definition valid_time :: "int \<Rightarrow> bool" where
  "valid_time t = (- 8640000000000000 \<le> t \<and> t \<le> 8640000000000000)"

definition js_date :: "int \<Rightarrow> jsval" where
  "js_date t = (if valid_time t then Date t else InvalidDate)"

text \<open>The constructor \<^verbatim>\<open>new Date(v)\<close> on a request field.\<close>

definition new_Date :: "jsval \<Rightarrow> ('s, jsval) io" where
  "new_Date v = (\<lambda>w.
     (Inr (case v of
             Str s \<Rightarrow> (case date_parse w s of None \<Rightarrow> InvalidDate | Some t \<Rightarrow> js_date t)
           | Num n \<Rightarrow> js_date n
           | JBool b \<Rightarrow> Date (if b then 1 else 0)
           | Null \<Rightarrow> Date 0
           | Date t \<Rightarrow> Date t
           | Undefined \<Rightarrow> InvalidDate
           | InvalidDate \<Rightarrow> InvalidDate), w))"

section \<open>The Todo entity (models/Todo)\<close>

record 's Todo =
  sql :: "'s Sql"
  props :: "jsval obj"

text \<open>
  \<^verbatim>\<open>const [row] = await connection`...`\<close> takes the first row, \<open>undefined\<close> when there is
  none. \<open>convertToCase\<close> is then applied to it; on \<open>undefined\<close> there are no keys to
  enumerate and the call throws a \<open>TypeError\<close>.
\<close>

definition first_row :: "result \<Rightarrow> jsval obj option" where
  "first_row r = (case rows r of [] \<Rightarrow> None | x # xs \<Rightarrow> Some x)"

definition row_props :: "jsval obj option \<Rightarrow> ('s, jsval obj) io" where
  "row_props row =
     (case row of
        None \<Rightarrow> throwE (TypeError ''Cannot convert undefined or null to object'')
      | Some r \<Rightarrow> returnE (convertToCase snakeToCamel r))"

definition Todo_create :: "'s Sql \<Rightarrow> jsval obj \<Rightarrow> ('s, 's Todo) io" where
  "Todo_create db props0 =
     bindE (sql_reserve db) (\<lambda>_.
     bindE (if nullish (field ''createdAt'' props0) then createUTCDate None
            else returnE (field ''createdAt'' props0)) (\<lambda>createdAt.
     bindE (connection db
              (Insert (convertToCase camelToSnake (set_prop ''createdAt'' createdAt props0)))) (\<lambda>res.
     bindE (connection_release db) (\<lambda>_.
     bindE (row_props (first_row res)) (\<lambda>ps.
     returnE \<lparr>sql = db, props = ps\<rparr>)))))"

definition Todo_read :: "'s Sql \<Rightarrow> int \<Rightarrow> ('s, 's Todo option) io" where
  "Todo_read db n =
     bindE (sql_reserve db) (\<lambda>_.
     bindE (connection db (SelectById (Num n))) (\<lambda>res.
     bindE (connection_release db) (\<lambda>_.
     case first_row res of
       None \<Rightarrow> returnE None
     | Some row \<Rightarrow> returnE (Some \<lparr>sql = db, props = convertToCase snakeToCamel row\<rparr>))))"

definition getSortBy :: "string \<Rightarrow> string" where
  "getSortBy sortBy =
     (if sortBy = ''title'' then ''title''
      else if sortBy = ''description'' then ''description''
      else if sortBy = ''status'' then ''status''
      else if sortBy = ''dueAt'' then ''due_at''
      else if sortBy = ''createdAt'' then ''created_at''
      else if sortBy = ''completedAt'' then ''completed_at''
      else if sortBy = ''editedAt'' then ''edited_at''
      else ''id'')"

definition getOrderBy :: "string \<Rightarrow> string" where
  "getOrderBy orderBy = (if orderBy = ''asc'' then ''ASC'' else ''DESC'')"

text \<open>\<open>readAll\<close>; the three parameters are optional (\<open>None\<close> is \<open>undefined\<close>), and each
  fragment of the statement is present when its value is truthy.\<close>

definition Todo_readAll ::
  "'s Sql \<Rightarrow> jsval obj option \<Rightarrow> string option \<Rightarrow> string option \<Rightarrow> ('s, 's Todo list) io" where
  "Todo_readAll db filters sortBy orderBy =
     bindE (sql_reserve db) (\<lambda>_.
     bindE (connection db
              (SelectAll
                 (case filters of
                    None \<Rightarrow> None
                  | Some f \<Rightarrow> if truthy (field ''status'' f) then Some (field ''status'' f) else None)
                 (case sortBy of
                    None \<Rightarrow> None
                  | Some s \<Rightarrow> if s \<noteq> [] then Some (getSortBy s) else None)
                 (case orderBy of
                    None \<Rightarrow> None
                  | Some s \<Rightarrow> if s \<noteq> [] then Some (getOrderBy s) else None))) (\<lambda>res.
     bindE (connection_release db) (\<lambda>_.
     returnE (map (\<lambda>row. \<lparr>sql = db, props = convertToCase snakeToCamel row\<rparr>) (rows res)))))"

text \<open>\<open>update\<close> assigns \<open>this.props\<close>; the model returns the entity after the assignment.\<close>

definition Todo_update :: "'s Todo \<Rightarrow> jsval obj \<Rightarrow> ('s, 's Todo) io" where
  "Todo_update this updateProps =
     bindE (sql_reserve (sql this)) (\<lambda>_.
     bindE (createUTCDate None) (\<lambda>editedAt.
     bindE (connection (sql this)
              (Update (convertToCase camelToSnake updateProps) editedAt (field ''id'' (props this)))) (\<lambda>res.
     bindE (connection_release (sql this)) (\<lambda>_.
     bindE (row_props (first_row res)) (\<lambda>ps.
     returnE (this\<lparr>props := spread (props this) ps\<rparr>))))))"

definition Todo_delete :: "'s Todo \<Rightarrow> ('s, bool) io" where
  "Todo_delete this =
     bindE (sql_reserve (sql this)) (\<lambda>_.
     bindE (connection (sql this) (Delete (field ''id'' (props this)))) (\<lambda>res.
     bindE (connection_release (sql this)) (\<lambda>_.
     returnE (count res = 1))))"

definition Todo_markComplete :: "'s Todo \<Rightarrow> ('s, 's Todo) io" where
  "Todo_markComplete this =
     bindE (createUTCDate None) (\<lambda>now.
     Todo_update this [(''status'', Str ''complete''), (''completedAt'', now)])"

section \<open>The controller (controllers/TodoController)\<close>

text \<open>
  Modelled from the spec: the router's \<open>Request\<close> wrapper, "thin adapters exposing parsed
  body, query params, path params" (the module is not part of the sources at hand).
  \<open>searchParams\<close> is what \<open>getSearchParams()\<close> returns, looked up with \<open>get\<close> (\<open>None\<close> is
  \<open>null\<close>); \<open>getId\<close> is the numeric path parameter, \<open>None\<close> standing for \<open>NaN\<close>; \<open>body\<close> is
  the parsed JSON body.
\<close>

record Request =
  searchParams :: "string obj"
  getId :: "int option"
  body :: "jsval obj"

definition isValidTodoProps :: "jsval obj \<Rightarrow> bool" where
  "isValidTodoProps ps =
     (get_prop ''title'' ps \<noteq> None \<and>
      get_prop ''description'' ps \<noteq> None \<and>
      (case field ''title'' ps of Str s \<Rightarrow> True | _ \<Rightarrow> False) \<and>
      (case field ''description'' ps of Str s \<Rightarrow> True | _ \<Rightarrow> False))"

definition isSortByValid :: "string \<Rightarrow> bool" where
  "isSortByValid sortBy =
     (sortBy = ''id'' \<or>
      sortBy = ''title'' \<or>
      sortBy = ''description'' \<or>
      sortBy = ''dueAt'' \<or>
      sortBy = ''createdAt'' \<or>
      sortBy = ''updatedAt'')"

definition isOrderByValid :: "string \<Rightarrow> bool" where
  "isOrderByValid orderBy = (orderBy = ''asc'' \<or> orderBy = ''desc'')"

text \<open>The handlers take \<open>this.sql\<close> as their first argument.\<close>

definition getTodoList :: "'s Sql \<Rightarrow> Request \<Rightarrow> ('s, unit) io" where
  "getTodoList this_sql req =
     (let queryParams = searchParams req;
          statusFilter = get_prop ''status'' queryParams;
          sortBy = (case get_prop ''sortBy'' queryParams of None \<Rightarrow> ''id'' | Some s \<Rightarrow> s);
          orderBy = (case get_prop ''orderBy'' queryParams of None \<Rightarrow> ''asc'' | Some s \<Rightarrow> s)
      in
        if (case statusFilter of
              None \<Rightarrow> False
            | Some s \<Rightarrow> s \<noteq> [] \<and> s \<noteq> ''incomplete'' \<and> s \<noteq> ''complete'')
        then res_send \<lparr>statusCode = BadRequest, message = ''Invalid filter parameter.'',
                       payload = NoPayload\<rparr>
        else if sortBy \<noteq> [] \<and> \<not> isSortByValid sortBy
        then res_send \<lparr>statusCode = BadRequest, message = ''Invalid sortBy parameter.'',
                       payload = NoPayload\<rparr>
        else if orderBy \<noteq> [] \<and> \<not> isOrderByValid orderBy
        then res_send \<lparr>statusCode = BadRequest, message = ''Invalid orderBy parameter.'',
                       payload = NoPayload\<rparr>
        else
          bindE (catchE
                   (Todo_readAll this_sql
                      (Some [(''status'', (case statusFilter of None \<Rightarrow> Null | Some s \<Rightarrow> Str s))])
                      (Some sortBy) (Some orderBy))
                   (\<lambda>error.
                      bindE (console_error (''Error while getting todo list: '' @ error_text error)) (\<lambda>_.
                      bindE (res_send \<lparr>statusCode = InternalServerError,
                                       message = ''Error while getting todo list: '' @ error_text error,
                                       payload = NoPayload\<rparr>) (\<lambda>_.
                      returnE [])))) (\<lambda>todos.
          res_send \<lparr>statusCode = OK, message = ''Todo list retrieved'',
                    payload = TodosPayload (map props todos)\<rparr>))"

definition getTodo :: "'s Sql \<Rightarrow> Request \<Rightarrow> ('s, unit) io" where
  "getTodo this_sql req =
     (case getId req of
        None \<Rightarrow> res_send \<lparr>statusCode = BadRequest, message = ''Invalid ID'', payload = NoPayload\<rparr>
      | Some n \<Rightarrow>
          bindE (catchE
                   (Todo_read this_sql n)
                   (\<lambda>error.
                      bindE (console_error (''Error while getting todo list: '' @ error_text error)) (\<lambda>_.
                      bindE (res_send \<lparr>statusCode = InternalServerError,
                                       message = ''Error while getting todo list: '' @ error_text error,
                                       payload = NoPayload\<rparr>) (\<lambda>_.
                      returnE None)))) (\<lambda>todo.
          case todo of
            Some t \<Rightarrow> res_send \<lparr>statusCode = OK, message = ''Todo retrieved'',
                                payload = TodoPayload (props t)\<rparr>
          | None \<Rightarrow> res_send \<lparr>statusCode = NotFound, message = ''Not found'',
                              payload = NoPayload\<rparr>))"

text \<open>The properties \<open>createTodo\<close> builds from the body, before \<open>dueAt\<close> is looked at.\<close>

definition createTodo_props :: "jsval obj \<Rightarrow> jsval \<Rightarrow> jsval obj" where
  "createTodo_props b createdAt =
     [(''title'', field ''title'' b),
      (''description'', field ''description'' b),
      (''status'', Str ''incomplete''),
      (''createdAt'', createdAt)]"

text \<open>\<^verbatim>\<open>if (req.body.dueAt) todoProps.dueAt = createUTCDate(new Date(req.body.dueAt))\<close>,
  shared by \<open>createTodo\<close> and \<open>updateTodo\<close>.\<close>

definition with_dueAt :: "jsval obj \<Rightarrow> jsval obj \<Rightarrow> ('s, jsval obj) io" where
  "with_dueAt b todoProps =
     (if truthy (field ''dueAt'' b)
      then bindE (new_Date (field ''dueAt'' b)) (\<lambda>d.
           bindE (createUTCDate (Some d)) (\<lambda>u.
           returnE (set_prop ''dueAt'' u todoProps)))
      else returnE todoProps)"

definition createTodo :: "'s Sql \<Rightarrow> Request \<Rightarrow> ('s, unit) io" where
  "createTodo this_sql req =
     bindE (createUTCDate None) (\<lambda>createdAt.
     bindE (with_dueAt (body req) (createTodo_props (body req) createdAt)) (\<lambda>todoProps.
     bindE (catchE
              (bindE (Todo_create this_sql todoProps) (\<lambda>t. returnE (Some t)))
              (\<lambda>error.
                 bindE (console_error (''Error while creating todo: '' @ error_text error)) (\<lambda>_.
                 returnE None))) (\<lambda>todo.
     case todo of
       None \<Rightarrow> res_send \<lparr>statusCode = InternalServerError, message = ''Error while creating todo'',
                         payload = NoPayload\<rparr>
     | Some t \<Rightarrow> res_send \<lparr>statusCode = Created, message = ''Todo created successfully!'',
                           payload = TodoPayload (props t)\<rparr>)))"

definition updateTodo_props :: "jsval obj \<Rightarrow> jsval obj" where
  "updateTodo_props b =
     (let p0 = [];
          p1 = (if truthy (field ''title'' b) then set_prop ''title'' (field ''title'' b) p0 else p0);
          p2 = (if truthy (field ''description'' b)
                then set_prop ''description'' (field ''description'' b) p1 else p1)
      in p2)"

definition updateTodo :: "'s Sql \<Rightarrow> Request \<Rightarrow> ('s, unit) io" where
  "updateTodo this_sql req =
     (case getId req of
        None \<Rightarrow> res_send \<lparr>statusCode = BadRequest, message = ''Invalid ID'', payload = NoPayload\<rparr>
      | Some n \<Rightarrow>
          bindE (with_dueAt (body req) (updateTodo_props (body req))) (\<lambda>todoProps.
          catchE
            (bindE (Todo_read this_sql n) (\<lambda>todo.
             case todo of
               Some t \<Rightarrow>
                 bindE (Todo_update t todoProps) (\<lambda>t'.
                 res_send \<lparr>statusCode = OK, message = ''Todo updated successfully!'',
                           payload = TodoPayload (props t')\<rparr>)
             | None \<Rightarrow> res_send \<lparr>statusCode = NotFound, message = ''Not found'',
                                 payload = NoPayload\<rparr>))
            (\<lambda>error. console_error (''Error while updating todo: '' @ error_text error))))"

definition deleteTodo :: "'s Sql \<Rightarrow> Request \<Rightarrow> ('s, unit) io" where
  "deleteTodo this_sql req =
     (case getId req of
        None \<Rightarrow> res_send \<lparr>statusCode = BadRequest, message = ''Invalid ID'', payload = NoPayload\<rparr>
      | Some n \<Rightarrow>
          catchE
            (bindE (Todo_read this_sql n) (\<lambda>todo.
             case todo of
               None \<Rightarrow> res_send \<lparr>statusCode = NotFound, message = ''Not found'',
                                 payload = NoPayload\<rparr>
             | Some t \<Rightarrow>
                 bindE (Todo_delete t) (\<lambda>deleted.
                 if deleted
                 then res_send \<lparr>statusCode = OK, message = ''Todo deleted successfully!'',
                                payload = TodoPayload (props t)\<rparr>
                 else res_send \<lparr>statusCode = InternalServerError,
                                message = ''Error while deleting todo.'', payload = NoPayload\<rparr>)))
            (\<lambda>error. console_error (''Error while deleting todo: '' @ error_text error)))"

definition completeTodo :: "'s Sql \<Rightarrow> Request \<Rightarrow> ('s, unit) io" where
  "completeTodo this_sql req =
     (case getId req of
        None \<Rightarrow> res_send \<lparr>statusCode = BadRequest, message = ''Invalid ID'', payload = NoPayload\<rparr>
      | Some n \<Rightarrow>
          catchE
            (bindE (Todo_read this_sql n) (\<lambda>todo.
             case todo of
               Some t \<Rightarrow>
                 bindE (Todo_markComplete t) (\<lambda>t'.
                 res_send \<lparr>statusCode = OK, message = ''Todo marked as complete!'',
                           payload = TodoPayload (props t')\<rparr>)
             | None \<Rightarrow> res_send \<lparr>statusCode = NotFound, message = ''Not found'',
                                 payload = NoPayload\<rparr>))
            (\<lambda>error. console_error (''Error while marking todo as complete: '' @ error_text error)))"

text \<open>The conditions of the three validation steps of \<open>getTodoList\<close>, and the sort and
  order parameters after defaulting.\<close>

definition sortBy_param :: "Request \<Rightarrow> string" where
  "sortBy_param req = (case get_prop ''sortBy'' (searchParams req) of None \<Rightarrow> ''id'' | Some s \<Rightarrow> s)"

definition orderBy_param :: "Request \<Rightarrow> string" where
  "orderBy_param req = (case get_prop ''orderBy'' (searchParams req) of None \<Rightarrow> ''asc'' | Some s \<Rightarrow> s)"

definition status_filter :: "Request \<Rightarrow> jsval obj" where
  "status_filter req =
     [(''status'', (case get_prop ''status'' (searchParams req) of None \<Rightarrow> Null | Some s \<Rightarrow> Str s))]"

definition filter_rejected :: "Request \<Rightarrow> bool" where
  "filter_rejected req =
     (case get_prop ''status'' (searchParams req) of
        None \<Rightarrow> False
      | Some s \<Rightarrow> s \<noteq> [] \<and> s \<noteq> ''incomplete'' \<and> s \<noteq> ''complete'')"

definition sortBy_rejected :: "Request \<Rightarrow> bool" where
  "sortBy_rejected req = (sortBy_param req \<noteq> [] \<and> \<not> isSortByValid (sortBy_param req))"

definition orderBy_rejected :: "Request \<Rightarrow> bool" where
  "orderBy_rejected req = (orderBy_param req \<noteq> [] \<and> \<not> isOrderByValid (orderBy_param req))"

definition bad_request :: "string \<Rightarrow> response" where
  "bad_request msg = \<lparr>statusCode = BadRequest, message = msg, payload = NoPayload\<rparr>"

section \<open>A reference database\<close>

text \<open>
  The storage collaborator of section 6 of the specification: "a relational table \<open>todos\<close>
  with columns \<open>id\<close> (serial primary key), \<open>title\<close>, \<open>description\<close>, \<open>status\<close>, \<open>due_at\<close>,
  \<open>created_at\<close>, \<open>completed_at\<close>, \<open>edited_at\<close>". It gives the five statements a meaning, so
  that what the entity returns can be stated. \<open>title\<close> and \<open>description\<close> are required, the
  other columns are nullable and default to \<open>NULL\<close>; a value of the wrong type, an
  \<open>undefined\<close> value and an unknown column are rejected.
\<close>

record todo_row =
  r_id :: int
  r_title :: string
  r_description :: string
  r_status :: "string option"
  r_due_at :: "int option"
  r_created_at :: "int option"
  r_completed_at :: "int option"
  r_edited_at :: "int option"

record pgdb =
  todos :: "todo_row list"
  next_id :: int

definition text_cell :: "string option \<Rightarrow> jsval" where
  "text_cell x = (case x of None \<Rightarrow> Null | Some s \<Rightarrow> Str s)"

definition time_cell :: "int option \<Rightarrow> jsval" where
  "time_cell x = (case x of None \<Rightarrow> Null | Some t \<Rightarrow> Date t)"

text \<open>A row as the driver returns it: an object keyed by the column names.\<close>

definition row_obj :: "todo_row \<Rightarrow> jsval obj" where
  "row_obj r =
     [(''id'', Num (r_id r)),
      (''title'', Str (r_title r)),
      (''description'', Str (r_description r)),
      (''status'', text_cell (r_status r)),
      (''due_at'', time_cell (r_due_at r)),
      (''created_at'', time_cell (r_created_at r)),
      (''completed_at'', time_cell (r_completed_at r)),
      (''edited_at'', time_cell (r_edited_at r))]"

definition columns :: "string list" where
  "columns = [''id'', ''title'', ''description'', ''status'', ''due_at'', ''created_at'',
              ''completed_at'', ''edited_at'']"

text \<open>
  What the columns hold. A text cell holds any string without the NUL character. A
  timestamp cell holds the instants of the years 0001 to 9999, the dates that the driver's
  ISO text form and the column both take.
\<close>

definition text_ok :: "string \<Rightarrow> bool" where
  "text_ok s = (CHR 0x00 \<notin> set s)"

definition storable :: "int \<Rightarrow> bool" where
  "storable t = (- 62135596800000 \<le> t \<and> t \<le> 253402300799999)"

text \<open>Reading a value as a cell of a text or a timestamp column: \<open>Some None\<close> is \<open>NULL\<close>,
  \<open>None\<close> a value the column does not accept.\<close>

fun as_text :: "jsval \<Rightarrow> string option option" where
  "as_text (Str s) = (if text_ok s then Some (Some s) else None)"
| "as_text Null = Some None"
| "as_text v = None"

fun as_time :: "jsval \<Rightarrow> int option option" where
  "as_time (Date t) = (if storable t then Some (Some t) else None)"
| "as_time Null = Some None"
| "as_time v = None"

definition set_col :: "string \<Rightarrow> jsval \<Rightarrow> todo_row \<Rightarrow> error + todo_row" where
  "set_col c v r =
     (if v = Undefined then Inl (DbError ''UNDEFINED_VALUE'')
      else if c = ''id'' then
        (case v of Num n \<Rightarrow> Inr (r\<lparr>r_id := n\<rparr>) | _ \<Rightarrow> Inl (DbError ''invalid input for column id''))
      else if c = ''title'' then
        (case as_text v of
           Some (Some s) \<Rightarrow> Inr (r\<lparr>r_title := s\<rparr>)
         | Some None \<Rightarrow> Inl (DbError ''null value in column title'')
         | None \<Rightarrow> Inl (DbError ''invalid input for column title''))
      else if c = ''description'' then
        (case as_text v of
           Some (Some s) \<Rightarrow> Inr (r\<lparr>r_description := s\<rparr>)
         | Some None \<Rightarrow> Inl (DbError ''null value in column description'')
         | None \<Rightarrow> Inl (DbError ''invalid input for column description''))
      else if c = ''status'' then
        (case as_text v of
           Some x \<Rightarrow> Inr (r\<lparr>r_status := x\<rparr>)
         | None \<Rightarrow> Inl (DbError ''invalid input for column status''))
      else if c = ''due_at'' then
        (case as_time v of
           Some x \<Rightarrow> Inr (r\<lparr>r_due_at := x\<rparr>)
         | None \<Rightarrow> Inl (DbError ''invalid input for column due_at''))
      else if c = ''created_at'' then
        (case as_time v of
           Some x \<Rightarrow> Inr (r\<lparr>r_created_at := x\<rparr>)
         | None \<Rightarrow> Inl (DbError ''invalid input for column created_at''))
      else if c = ''completed_at'' then
        (case as_time v of
           Some x \<Rightarrow> Inr (r\<lparr>r_completed_at := x\<rparr>)
         | None \<Rightarrow> Inl (DbError ''invalid input for column completed_at''))
      else if c = ''edited_at'' then
        (case as_time v of
           Some x \<Rightarrow> Inr (r\<lparr>r_edited_at := x\<rparr>)
         | None \<Rightarrow> Inl (DbError ''invalid input for column edited_at''))
      else Inl (DbError ''column does not exist''))"

fun apply_cols :: "jsval obj \<Rightarrow> todo_row \<Rightarrow> error + todo_row" where
  "apply_cols [] r = Inr r"
| "apply_cols ((c, v) # cs) r =
     (case set_col c v r of Inl e \<Rightarrow> Inl e | Inr r' \<Rightarrow> apply_cols cs r')"

definition blank_row :: "int \<Rightarrow> todo_row" where
  "blank_row n =
     \<lparr>r_id = n, r_title = [], r_description = [], r_status = None, r_due_at = None,
      r_created_at = None, r_completed_at = None, r_edited_at = None\<rparr>"

definition pg_insert :: "jsval obj \<Rightarrow> pgdb \<Rightarrow> (error + result) \<times> pgdb" where
  "pg_insert cols db =
     (if cols = [] then (Inl (DbError ''syntax error''), db)
      else if ''title'' \<notin> set (map fst cols) \<or> ''description'' \<notin> set (map fst cols)
      then (Inl (DbError ''null value in a required column''), db)
      else
        (case apply_cols cols (blank_row (next_id db)) of
           Inl e \<Rightarrow> (Inl e, db)
         | Inr r \<Rightarrow>
             if r_id r \<in> set (map r_id (todos db))
             then (Inl (DbError ''duplicate key''), db)
             else (Inr \<lparr>rows = [row_obj r], count = 1\<rparr>,
                   db\<lparr>todos := todos db @ [r], next_id := next_id db + 1\<rparr>)))"

text \<open>The sort key of a cell: values before \<open>NULL\<close>, integers and timestamps by value,
  text in the lexicographic order of its characters.\<close>

fun cell_key :: "jsval \<Rightarrow> nat \<times> int \<times> string" where
  "cell_key (Num n) = (0, n, [])"
| "cell_key (Date t) = (0, t, [])"
| "cell_key (Str s) = (0, 0, s)"
| "cell_key v = (1, 0, [])"

definition col_key :: "string \<Rightarrow> todo_row \<Rightarrow> nat \<times> int \<times> string" where
  "col_key c r = cell_key (field c (row_obj r))"

fun where_rows :: "jsval option \<Rightarrow> todo_row list \<Rightarrow> error + todo_row list" where
  "where_rows None rs = Inr rs"
| "where_rows (Some (Str s)) rs = Inr (filter (\<lambda>r. r_status r = Some s) rs)"
| "where_rows (Some v) rs = Inl (DbError ''invalid input for column status'')"

text \<open>\<open>ORDER BY\<close>: ascending when no direction is given; a direction keyword without
  \<open>ORDER BY\<close> is not a statement.\<close>

definition order_rows ::
  "string option \<Rightarrow> string option \<Rightarrow> todo_row list \<Rightarrow> error + todo_row list" where
  "order_rows ob dir rs =
     (case ob of
        None \<Rightarrow> (case dir of None \<Rightarrow> Inr rs | Some d \<Rightarrow> Inl (DbError ''syntax error''))
      | Some c \<Rightarrow>
          if c \<notin> set columns then Inl (DbError ''column does not exist'')
          else if dir = None \<or> dir = Some ''ASC'' then Inr (sort_key (col_key c) rs)
          else if dir = Some ''DESC'' then Inr (rev (sort_key (col_key c) rs))
          else Inl (DbError ''syntax error''))"

definition pg_select_all ::
  "jsval option \<Rightarrow> string option \<Rightarrow> string option \<Rightarrow> pgdb \<Rightarrow> (error + result) \<times> pgdb" where
  "pg_select_all wh ob dir db =
     (case where_rows wh (todos db) of
        Inl e \<Rightarrow> (Inl e, db)
      | Inr rs \<Rightarrow>
          (case order_rows ob dir rs of
             Inl e \<Rightarrow> (Inl e, db)
           | Inr rs' \<Rightarrow> (Inr \<lparr>rows = map row_obj rs', count = length rs'\<rparr>, db)))"

text \<open>\<open>UPDATE\<close>: the new table and the rows that were changed, in table order.\<close>

fun update_rows :: "jsval obj \<Rightarrow> int \<Rightarrow> todo_row list \<Rightarrow> error + (todo_row list \<times> todo_row list)" where
  "update_rows cols n [] = Inr ([], [])"
| "update_rows cols n (r # rs) =
     (if r_id r = n then
        (case apply_cols cols r of
           Inl e \<Rightarrow> Inl e
         | Inr r' \<Rightarrow>
             (case update_rows cols n rs of
                Inl e \<Rightarrow> Inl e
              | Inr (tbl, changed) \<Rightarrow> Inr (r' # tbl, r' # changed)))
      else
        (case update_rows cols n rs of
           Inl e \<Rightarrow> Inl e
         | Inr (tbl, changed) \<Rightarrow> Inr (r # tbl, changed)))"

definition pg_update :: "jsval obj \<Rightarrow> jsval \<Rightarrow> jsval \<Rightarrow> pgdb \<Rightarrow> (error + result) \<times> pgdb" where
  "pg_update cols editedAt v db =
     (if cols = [] then (Inl (DbError ''syntax error''), db)
      else
        (case v of
           Num n \<Rightarrow>
             (case update_rows (cols @ [(''edited_at'', editedAt)]) n (todos db) of
                Inl e \<Rightarrow> (Inl e, db)
              | Inr (tbl, changed) \<Rightarrow>
                  (Inr \<lparr>rows = map row_obj changed, count = length changed\<rparr>, db\<lparr>todos := tbl\<rparr>))
         | _ \<Rightarrow> (Inl (DbError ''invalid input for column id''), db)))"

fun pg_exec :: "query \<Rightarrow> pgdb \<Rightarrow> (error + result) \<times> pgdb" where
  "pg_exec (Insert cols) db = pg_insert cols db"
| "pg_exec (SelectById v) db =
     (case v of
        Num n \<Rightarrow>
          (Inr \<lparr>rows = map row_obj (filter (\<lambda>r. r_id r = n) (todos db)),
                count = length (filter (\<lambda>r. r_id r = n) (todos db))\<rparr>, db)
      | _ \<Rightarrow> (Inl (DbError ''invalid input for column id''), db))"
| "pg_exec (SelectAll wh ob dir) db = pg_select_all wh ob dir db"
| "pg_exec (Update cols editedAt v) db = pg_update cols editedAt v db"
| "pg_exec (Delete v) db =
     (case v of
        Num n \<Rightarrow>
          (Inr \<lparr>rows = [], count = length (filter (\<lambda>r. r_id r = n) (todos db))\<rparr>,
           db\<lparr>todos := filter (\<lambda>r. r_id r \<noteq> n) (todos db)\<rparr>)
      | _ \<Rightarrow> (Inl (DbError ''invalid input for column id''), db))"

text \<open>The driver over the reference database: connections are always available.\<close>

definition pg :: "pgdb Sql" where
  "pg = \<lparr>reserve = (\<lambda>s. (None, s)), run = pg_exec, release = (\<lambda>s. (None, s))\<rparr>"

text \<open>A driver whose pool cannot reach the database: reserving a connection rejects.\<close>

definition unreachable :: "'s Sql" where
  "unreachable =
     \<lparr>reserve = (\<lambda>s. (Some (DbError ''connection refused''), s)),
      run = (\<lambda>q s. (Inl (DbError ''connection refused''), s)),
      release = (\<lambda>s. (None, s))\<rparr>"

text \<open>A driver over the reference database on which another client removes the rows
  between any two statements: \<open>DELETE\<close> finds nothing left to remove.\<close>

definition pg_raced :: "pgdb Sql" where
  "pg_raced =
     \<lparr>reserve = (\<lambda>s. (None, s)),
      run = (\<lambda>q s. case q of
                      Delete v \<Rightarrow> (Inr \<lparr>rows = [], count = 0\<rparr>, s\<lparr>todos := []\<rparr>)
                    | _ \<Rightarrow> pg_exec q s),
      release = (\<lambda>s. (None, s))\<rparr>"

text \<open>The value an entity holds for a column, as a sort key: the property is named by the
  camel-case form of the column.\<close>

definition prop_key :: "string \<Rightarrow> jsval obj \<Rightarrow> nat \<times> int \<times> string" where
  "prop_key c ps = cell_key (field (snakeToCamel c) ps)"

text \<open>A filter the table can evaluate: no filter object, or one whose \<open>status\<close> is a string,
  \<open>null\<close> or \<open>undefined\<close>, as the type \<open>TodoProps["status"] | undefined\<close> has it.\<close>

definition status_filter_ok :: "jsval obj option \<Rightarrow> bool" where
  "status_filter_ok filters =
     (case filters of
        None \<Rightarrow> True
      | Some f \<Rightarrow> (case field ''status'' f of
                     Str s \<Rightarrow> True | Null \<Rightarrow> True | Undefined \<Rightarrow> True | _ \<Rightarrow> False))"

text \<open>The serial counter is ahead of every id in the table.\<close>

definition store_ok :: "pgdb \<Rightarrow> bool" where
  "store_ok db = list_all (\<lambda>r. r_id r < next_id db) (todos db)"

text \<open>The row the reference database stores for a new todo.\<close>

definition created_row :: "int \<Rightarrow> string \<Rightarrow> string \<Rightarrow> int \<Rightarrow> int option \<Rightarrow> todo_row" where
  "created_row n a d createdAt dueAt =
     \<lparr>r_id = n, r_title = a, r_description = d, r_status = Some ''incomplete'', r_due_at = dueAt,
      r_created_at = Some createdAt, r_completed_at = None, r_edited_at = None\<rparr>"


text \<open>
  Valid creation input. The properties handed to \<open>Todo.create\<close>: a title, a description and
  the status \<open>incomplete\<close>, then \<open>createdAt\<close> (absent, or present with a date or a nullish
  value) and \<open>dueAt\<close> (absent, or a date); the texts and the dates are ones the table holds.
  A request body is valid when \<open>title\<close> and \<open>description\<close> are such strings and \<open>dueAt\<close> is
  missing, falsy, or a number or a string that the runtime reads as such a date.
\<close>

definition create_input :: "string \<Rightarrow> string \<Rightarrow> jsval option \<Rightarrow> int option \<Rightarrow> jsval obj" where
  "create_input a d createdAt dueAt =
     [(''title'', Str a), (''description'', Str d), (''status'', Str ''incomplete'')]
     @ (case createdAt of None \<Rightarrow> [] | Some c \<Rightarrow> [(''createdAt'', c)])
     @ (case dueAt of None \<Rightarrow> [] | Some x \<Rightarrow> [(''dueAt'', Date x)])"

fun createdAt_ok :: "jsval option \<Rightarrow> bool" where
  "createdAt_ok None = True"
| "createdAt_ok (Some Undefined) = True"
| "createdAt_ok (Some Null) = True"
| "createdAt_ok (Some (Date t)) = True"
| "createdAt_ok (Some v) = False"

fun createdAt_or :: "jsval option \<Rightarrow> int \<Rightarrow> int" where
  "createdAt_or (Some (Date t)) now = t"
| "createdAt_or v now = now"

definition valid_create_input ::
  "string \<Rightarrow> string \<Rightarrow> jsval option \<Rightarrow> int option \<Rightarrow> int \<Rightarrow> bool" where
  "valid_create_input a d createdAt dueAt now =
     (text_ok a \<and> text_ok d \<and> createdAt_ok createdAt \<and> storable (createdAt_or createdAt now)
      \<and> (case dueAt of None \<Rightarrow> True | Some x \<Rightarrow> storable x))"

fun text_field_ok :: "jsval \<Rightarrow> bool" where
  "text_field_ok (Str s) = text_ok s"
| "text_field_ok v = False"

fun dueAt_ok :: "(string \<Rightarrow> int option) \<Rightarrow> jsval \<Rightarrow> bool" where
  "dueAt_ok parse Undefined = True"
| "dueAt_ok parse Null = True"
| "dueAt_ok parse (Num n) = (n = 0 \<or> storable n)"
| "dueAt_ok parse (Str s) = (s = [] \<or> (case parse s of None \<Rightarrow> False | Some t \<Rightarrow> storable t))"
| "dueAt_ok parse v = False"

definition valid_create_body :: "(string \<Rightarrow> int option) \<Rightarrow> jsval obj \<Rightarrow> bool" where
  "valid_create_body parse b =
     (text_field_ok (field ''title'' b) \<and> text_field_ok (field ''description'' b)
      \<and> dueAt_ok parse (field ''dueAt'' b))"

section \<open>Sample worlds and requests\<close>

definition sample_world :: "pgdb world" where
  "sample_world =
     \<lparr>store = \<lparr>todos = [], next_id = 1\<rparr>,
      clock = (\<lambda>n. 1000 + int n),
      ticks = 0,
      date_parse = (\<lambda>s. if s = ''2022-12-31'' then Some 500 else None),
      events = []\<rparr>"

definition get_todos :: "(string \<times> string) list \<Rightarrow> Request" where
  "get_todos params = \<lparr>searchParams = params, getId = None, body = []\<rparr>"

definition with_id :: "int \<Rightarrow> jsval obj \<Rightarrow> Request" where
  "with_id n b = \<lparr>searchParams = [], getId = Some n, body = b\<rparr>"

definition milk_row :: todo_row where
  "milk_row =
     \<lparr>r_id = 1, r_title = ''Buy milk'', r_description = ''2%'', r_status = Some ''incomplete'',
      r_due_at = None, r_created_at = Some 900, r_completed_at = None, r_edited_at = None\<rparr>"

definition milk_props :: "jsval obj" where
  "milk_props =
     [(''id'', Num 1), (''title'', Str ''Buy milk''), (''description'', Str ''2%''),
      (''status'', Str ''incomplete''), (''dueAt'', Null), (''createdAt'', Date 900),
      (''completedAt'', Null), (''editedAt'', Null)]"

definition milk_world :: "pgdb world" where
  "milk_world = sample_world\<lparr>store := \<lparr>todos = [milk_row], next_id = 2\<rparr>\<rparr>"

definition eggs_row :: todo_row where
  "eggs_row =
     \<lparr>r_id = 2, r_title = ''Boil eggs'', r_description = ''six'', r_status = Some ''complete'',
      r_due_at = None, r_created_at = Some 950, r_completed_at = Some 960, r_edited_at = Some 960\<rparr>"

definition eggs_props :: "jsval obj" where
  "eggs_props =
     [(''id'', Num 2), (''title'', Str ''Boil eggs''), (''description'', Str ''six''),
      (''status'', Str ''complete''), (''dueAt'', Null), (''createdAt'', Date 950),
      (''completedAt'', Date 960), (''editedAt'', Date 960)]"

definition two_world :: "pgdb world" where
  "two_world = sample_world\<lparr>store := \<lparr>todos = [milk_row, eggs_row], next_id = 3\<rparr>\<rparr>"

definition post_todos :: "jsval obj \<Rightarrow> Request" where
  "post_todos b = \<lparr>searchParams = [], getId = None, body = b\<rparr>"

section \<open>The case converter is invertible on compound keys\<close>

lemma lower_not_upper: "is_lower c \<Longrightarrow> \<not> is_upper c"
  by (simp add: is_lower_def is_upper_def)

lemma lower_not_underscore: "is_lower c \<Longrightarrow> c \<noteq> CHR ''_''"
  by (auto simp: is_lower_def)

lemma of_char_toUpperCase:
  assumes "is_lower c"
  shows "(of_char (toUpperCase c) :: nat) = of_char c - 32"
proof -
  have "(of_char c :: nat) - 32 < 256"
    using assms unfolding is_lower_def by linarith
  then have "((of_char c :: nat) - 32) mod 256 = of_char c - 32"
    by simp
  with assms show ?thesis
    by (simp add: toUpperCase_def)
qed

lemma upper_of_lower:
  assumes "is_lower c"
  shows "is_upper (toUpperCase c)"
proof -
  have "65 \<le> (of_char c :: nat) - 32 \<and> (of_char c :: nat) - 32 \<le> 90"
    using assms unfolding is_lower_def by linarith
  then show ?thesis
    by (simp add: of_char_toUpperCase[OF assms] is_upper_def)
qed

lemma lower_upper_id:
  assumes "is_lower c"
  shows "toLowerCase (toUpperCase c) = c"
proof -
  have "32 \<le> (of_char c :: nat)"
    using assms unfolding is_lower_def by linarith
  then have "(of_char (toUpperCase c) :: nat) + 32 = of_char c"
    using assms by (simp add: of_char_toUpperCase)
  then have "char_of ((of_char (toUpperCase c) :: nat) + 32) = c"
    by simp
  then show ?thesis
    using upper_of_lower[OF assms] by (simp add: toLowerCase_def)
qed

lemma split_on_word: "d \<notin> set w \<Longrightarrow> split_on d (w @ d # rest) = w # split_on d rest"
  by (induction w) (auto split: list.splits)

lemma split_on_single: "d \<notin> set w \<Longrightarrow> split_on d w = [w]"
  by (induction w) (auto split: list.splits)

lemma split_on_join:
  "ws \<noteq> [] \<Longrightarrow> \<forall>w \<in> set ws. d \<notin> set w \<Longrightarrow> split_on d (join_with [d] ws) = ws"
proof (induction "[d]" ws rule: join_with.induct)
  case (3 w v ws)
  then show ?case by (simp add: split_on_word)
qed (simp_all add: split_on_single)

lemma split_upper_single:
  "\<forall>c \<in> set (tl w). \<not> is_upper c \<Longrightarrow> w \<noteq> [] \<Longrightarrow> split_upper w = [w]"
  by (induction w rule: split_upper.induct) (auto split: list.splits)

lemma split_upper_word:
  "\<forall>c \<in> set (tl w). \<not> is_upper c \<Longrightarrow> w \<noteq> [] \<Longrightarrow> is_upper u \<Longrightarrow>
   split_upper (w @ u # rest) = w # split_upper (u # rest)"
  by (induction w rule: split_upper.induct) (auto split: list.splits)

lemma lower_word_tl: "lower_word w \<Longrightarrow> \<forall>c \<in> set (tl w). \<not> is_upper c"
  by (cases w) (auto simp: lower_word_def list_all_iff lower_not_upper)

lemma capitalize_tl: "lower_word w \<Longrightarrow> \<forall>c \<in> set (tl (capitalize w)). \<not> is_upper c"
  by (cases w) (auto simp: lower_word_def list_all_iff lower_not_upper)

lemma uncapitalize_lower: "lower_word w \<Longrightarrow> uncapitalize w = w"
  by (cases w) (auto simp: lower_word_def toLowerCase_def lower_not_upper)

lemma uncapitalize_capitalize: "lower_word w \<Longrightarrow> uncapitalize (capitalize w) = w"
  by (cases w) (auto simp: lower_word_def lower_upper_id)

lemma split_upper_camel:
  "list_all lower_word vs \<Longrightarrow> w \<noteq> [] \<Longrightarrow> \<forall>c \<in> set (tl w). \<not> is_upper c \<Longrightarrow>
   split_upper (w @ concat (map capitalize vs)) = w # map capitalize vs"
proof (induction vs arbitrary: w)
  case Nil
  then show ?case by (simp add: split_upper_single)
next
  case (Cons v vs)
  from Cons.prems obtain c cs where v: "v = c # cs" and c: "is_lower c"
    by (cases v) (auto simp: lower_word_def)
  have lv: "lower_word v" using Cons.prems by simp
  have "split_upper (w @ concat (map capitalize (v # vs)))
        = split_upper (w @ toUpperCase c # (cs @ concat (map capitalize vs)))"
    by (simp add: v)
  also have "\<dots> = w # split_upper (toUpperCase c # (cs @ concat (map capitalize vs)))"
    using Cons.prems c by (intro split_upper_word) (auto simp: upper_of_lower)
  also have "toUpperCase c # (cs @ concat (map capitalize vs))
        = capitalize v @ concat (map capitalize vs)"
    by (simp add: v)
  also have "split_upper (capitalize v @ concat (map capitalize vs)) = capitalize v # map capitalize vs"
    using Cons.prems capitalize_tl[OF lv] by (intro Cons.IH) (auto simp: v)
  finally show ?case by simp
qed

lemma camelToSnake_camel_key:
  assumes "ws \<noteq> []" "list_all lower_word ws"
  shows "camelToSnake (camel_key ws) = snake_key ws"
proof -
  from assms obtain w vs where ws: "ws = w # vs" by (cases ws) auto
  have w: "lower_word w" and vs: "list_all lower_word vs" using assms ws by auto
  have "split_upper (camel_key ws) = w # map capitalize vs"
    using split_upper_camel[OF vs _ lower_word_tl[OF w]] w
    by (simp add: camel_key_def ws lower_word_def)
  moreover have "map uncapitalize (map capitalize vs) = vs"
    using vs by (induction vs) (auto simp: uncapitalize_capitalize)
  ultimately show ?thesis
    by (simp add: camelToSnake_def snake_key_def ws uncapitalize_lower[OF w])
qed

lemma no_underscore_in_words:
  assumes "list_all lower_word ws"
  shows "\<forall>w \<in> set ws. CHR ''_'' \<notin> set w"
  using assms lower_not_underscore by (fastforce simp: list_all_iff lower_word_def)

lemma snakeToCamel_snake_key:
  assumes "ws \<noteq> []" "list_all lower_word ws"
  shows "snakeToCamel (snake_key ws) = camel_key ws"
proof -
  have "split_on (CHR ''_'') (join_with [CHR ''_''] ws) = ws"
    using assms(1) no_underscore_in_words[OF assms(2)] by (intro split_on_join) auto
  then show ?thesis
    by (simp add: snakeToCamel_def snake_key_def camel_key_def)
qed

lemma set_prop_fresh: "k \<notin> fst ` set ps \<Longrightarrow> set_prop k v ps = ps @ [(k, v)]"
  by (induction ps) auto

lemma fold_set_prop_fresh:
  "distinct (map (\<lambda>(k, v). f k) ob) \<Longrightarrow> (\<forall>(k, v) \<in> set ob. f k \<notin> fst ` set acc) \<Longrightarrow>
   fold (\<lambda>(k, v) acc. set_prop (f k) v acc) ob acc = acc @ map (\<lambda>(k, v). (f k, v)) ob"
proof (induction ob arbitrary: acc)
  case Nil
  then show ?case by simp
next
  case (Cons p ob)
  obtain k v where p: "p = (k, v)" by (cases p)
  have fresh: "f k \<notin> fst ` set acc" using Cons.prems(2) by (auto simp: p)
  have "fold (\<lambda>(k, v) acc. set_prop (f k) v acc) ob (acc @ [(f k, v)])
        = (acc @ [(f k, v)]) @ map (\<lambda>(k, v). (f k, v)) ob"
    using Cons.prems by (intro Cons.IH) (force simp: p)+
  then show ?case by (simp add: p set_prop_fresh[OF fresh])
qed

lemma convertToCase_distinct:
  "distinct (map (\<lambda>(k, v). f k) ob) \<Longrightarrow> convertToCase f ob = map (\<lambda>(k, v). (f k, v)) ob"
  unfolding convertToCase_def by (subst fold_set_prop_fresh) auto

lemma snake_key_inj:
  assumes "ws \<noteq> []" "list_all lower_word ws" "vs \<noteq> []" "list_all lower_word vs"
    and eq: "snake_key ws = snake_key vs"
  shows "ws = vs"
proof -
  have "ws = split_on (CHR ''_'') (join_with [CHR ''_''] ws)"
    using split_on_join[OF assms(1) no_underscore_in_words[OF assms(2)]] by simp
  also have "\<dots> = split_on (CHR ''_'') (join_with [CHR ''_''] vs)"
    using eq by (simp add: snake_key_def)
  also have "\<dots> = vs"
    using split_on_join[OF assms(3) no_underscore_in_words[OF assms(4)]] by simp
  finally show ?thesis .
qed

lemma camel_key_inj:
  assumes "ws \<noteq> []" "list_all lower_word ws" "vs \<noteq> []" "list_all lower_word vs"
    and eq: "camel_key ws = camel_key vs"
  shows "ws = vs"
proof -
  have "snake_key ws = snake_key vs"
    using eq camelToSnake_camel_key[OF assms(1,2)] camelToSnake_camel_key[OF assms(3,4)]
    by simp
  then show ?thesis
    by (rule snake_key_inj[OF assms(1-4)])
qed

lemma words_ok_keys:
  "words_ok kws \<Longrightarrow> (ws, v) \<in> set kws \<Longrightarrow> ws \<noteq> [] \<and> list_all lower_word ws"
  by (auto simp: words_ok_def list_all_iff)

lemma distinct_snake_keys:
  assumes "words_ok kws"
  shows "distinct (map (\<lambda>(ws, v). snake_key ws) kws)"
proof -
  have "inj_on snake_key (set (map fst kws))"
    using words_ok_keys[OF assms] by (auto intro!: inj_onI snake_key_inj)
  moreover have "distinct (map fst kws)"
    using assms by (simp add: words_ok_def)
  ultimately have "distinct (map snake_key (map fst kws))"
    unfolding distinct_map[of snake_key "map fst kws"] by blast
  then have "distinct (map (snake_key \<circ> fst) kws)"
    by (simp only: map_map)
  moreover have "(\<lambda>(ws, v). snake_key ws) = snake_key \<circ> fst"
    by (auto simp: fun_eq_iff)
  ultimately show ?thesis by metis
qed

lemma distinct_camel_keys:
  assumes "words_ok kws"
  shows "distinct (map (\<lambda>(ws, v). camel_key ws) kws)"
proof -
  have "inj_on camel_key (set (map fst kws))"
    using words_ok_keys[OF assms] by (auto intro!: inj_onI camel_key_inj)
  moreover have "distinct (map fst kws)"
    using assms by (simp add: words_ok_def)
  ultimately have "distinct (map camel_key (map fst kws))"
    unfolding distinct_map[of camel_key "map fst kws"] by blast
  then have "distinct (map (camel_key \<circ> fst) kws)"
    by (simp only: map_map)
  moreover have "(\<lambda>(ws, v). camel_key ws) = camel_key \<circ> fst"
    by (auto simp: fun_eq_iff)
  ultimately show ?thesis by metis
qed

lemma camel_obj_to_snake:
  assumes "words_ok kws"
  shows "convertToCase camelToSnake (camel_obj kws) = snake_obj kws"
proof -
  have eq: "map (\<lambda>(k, v). (camelToSnake k, v)) (camel_obj kws) = snake_obj kws"
    using words_ok_keys[OF assms]
    by (auto simp: camel_obj_def snake_obj_def camelToSnake_camel_key)
  have "map (\<lambda>(k, v). camelToSnake k) (camel_obj kws) = map (\<lambda>(ws, v). snake_key ws) kws"
    using words_ok_keys[OF assms]
    by (auto simp: camel_obj_def camelToSnake_camel_key)
  then have "distinct (map (\<lambda>(k, v). camelToSnake k) (camel_obj kws))"
    using distinct_snake_keys[OF assms] by simp
  then show ?thesis
    using eq by (simp add: convertToCase_distinct)
qed

lemma snake_obj_to_camel:
  assumes "words_ok kws"
  shows "convertToCase snakeToCamel (snake_obj kws) = camel_obj kws"
proof -
  have eq: "map (\<lambda>(k, v). (snakeToCamel k, v)) (snake_obj kws) = camel_obj kws"
    using words_ok_keys[OF assms]
    by (auto simp: camel_obj_def snake_obj_def snakeToCamel_snake_key)
  have "map (\<lambda>(k, v). snakeToCamel k) (snake_obj kws) = map (\<lambda>(ws, v). camel_key ws) kws"
    using words_ok_keys[OF assms]
    by (auto simp: snake_obj_def snakeToCamel_snake_key)
  then have "distinct (map (\<lambda>(k, v). snakeToCamel k) (snake_obj kws))"
    using distinct_camel_keys[OF assms] by simp
  then show ?thesis
    using eq by (simp add: convertToCase_distinct)
qed

text \<open>
  C9. For every mapping whose keys are compound words of lowercase ASCII words (given by
  the words of each key, no key twice), converting the camel-case mapping to snake case and
  back yields the original mapping, and converting the snake-case mapping to camel case and
  back yields the original mapping: keys, values and order are all as before.
\<close>

theorem convertToCase_round_trip:
  assumes "words_ok kws"
  shows "convertToCase snakeToCamel (convertToCase camelToSnake (camel_obj kws)) = camel_obj kws
       \<and> convertToCase camelToSnake (convertToCase snakeToCamel (snake_obj kws)) = snake_obj kws"
  by (simp add: camel_obj_to_snake[OF assms] snake_obj_to_camel[OF assms])

theorem convertToCase_round_trip_witness:
  "words_ok [([''due'', ''at''], Date 5), ([''title''], Str ''Buy milk'')]
   \<and> camel_obj [([''due'', ''at''], Date 5), ([''title''], Str ''Buy milk'')]
       = [(''dueAt'', Date 5), (''title'', Str ''Buy milk'')]
   \<and> snake_obj [([''due'', ''at''], Date 5), ([''title''], Str ''Buy milk'')]
       = [(''due_at'', Date 5), (''title'', Str ''Buy milk'')]
   \<and> convertToCase snakeToCamel
        (convertToCase camelToSnake [(''dueAt'', Date 5), (''title'', Str ''Buy milk'')])
       = [(''dueAt'', Date 5), (''title'', Str ''Buy milk'')]
   \<and> convertToCase camelToSnake
        (convertToCase snakeToCamel [(''due_at'', Date 5), (''title'', Str ''Buy milk'')])
       = [(''due_at'', Date 5), (''title'', Str ''Buy milk'')]"
proof -
  let ?kws = "[([''due'', ''at''], Date 5), ([''title''], Str ''Buy milk'')]"
  have ok: "words_ok ?kws" by code_simp
  have c: "camel_obj ?kws = [(''dueAt'', Date 5), (''title'', Str ''Buy milk'')]" by code_simp
  have s: "snake_obj ?kws = [(''due_at'', Date 5), (''title'', Str ''Buy milk'')]" by code_simp
  show ?thesis
    using convertToCase_round_trip[OF ok] ok c s by simp
qed

section \<open>Effects of the entity operations\<close>

lemma bindE_Inl: "m w = (Inl e, w') \<Longrightarrow> bindE m f w = (Inl e, w')"
  by (simp add: bindE_def)

lemma bindE_Inr: "m w = (Inr x, w') \<Longrightarrow> bindE m f w = f x w'"
  by (simp add: bindE_def)

lemma catchE_Inl: "m w = (Inl e, w') \<Longrightarrow> catchE m h w = h e w'"
  by (simp add: catchE_def)

lemma catchE_Inr: "m w = (Inr x, w') \<Longrightarrow> catchE m h w = (Inr x, w')"
  by (simp add: catchE_def)

lemma sends_append: "sends (xs @ ys) = sends xs @ sends ys"
  by (induction xs rule: sends.induct) auto

lemma logs_append: "logs (xs @ ys) = logs xs @ logs ys"
  by (induction xs rule: logs.induct) auto

lemma quietD:
  "quiet m \<Longrightarrow> m w = (r, w') \<Longrightarrow>
   sends (events w') = sends (events w) \<and> logs (events w') = logs (events w)"
  unfolding quiet_def by (metis snd_conv)

lemma quiet_returnE: "quiet (returnE x)"
  by (simp add: quiet_def returnE_def)

lemma quiet_throwE: "quiet (throwE e)"
  by (simp add: quiet_def throwE_def)

lemma quiet_bindE: "quiet m \<Longrightarrow> (\<And>x. quiet (f x)) \<Longrightarrow> quiet (bindE m f)"
  unfolding quiet_def bindE_def
  by (auto split: prod.splits sum.splits) (metis snd_conv)+

lemma quiet_sql_reserve: "quiet (sql_reserve db)"
  by (auto simp: quiet_def sql_reserve_def sends_append logs_append split: prod.splits option.splits)

lemma quiet_connection: "quiet (connection db q)"
  by (auto simp: quiet_def connection_def sends_append logs_append split: prod.splits)

lemma quiet_connection_release: "quiet (connection_release db)"
  by (auto simp: quiet_def connection_release_def sends_append logs_append
           split: prod.splits option.splits)

lemma quiet_createUTCDate: "quiet (createUTCDate d)"
  by (auto simp: quiet_def createUTCDate_def split: option.splits)

lemma quiet_new_Date: "quiet (new_Date v)"
  by (simp add: quiet_def new_Date_def)

lemma quiet_row_props: "quiet (row_props row)"
  by (cases row) (simp_all add: row_props_def quiet_returnE quiet_throwE)

lemmas quiet_intros =
  quiet_bindE quiet_returnE quiet_throwE quiet_sql_reserve quiet_connection
  quiet_connection_release quiet_createUTCDate quiet_new_Date quiet_row_props

lemma quiet_Todo_read: "quiet (Todo_read db n)"
  unfolding Todo_read_def by (intro quiet_intros) (simp add: quiet_returnE split: option.splits)

lemma quiet_Todo_readAll: "quiet (Todo_readAll db f s ob)"
  unfolding Todo_readAll_def by (intro quiet_intros)

lemma quiet_Todo_create: "quiet (Todo_create db ps)"
  unfolding Todo_create_def by (intro quiet_intros) (simp add: quiet_intros)

lemma quiet_Todo_update: "quiet (Todo_update t ps)"
  unfolding Todo_update_def by (intro quiet_intros)

lemma quiet_Todo_delete: "quiet (Todo_delete t)"
  unfolding Todo_delete_def by (intro quiet_intros)

lemma quiet_Todo_markComplete: "quiet (Todo_markComplete t)"
  unfolding Todo_markComplete_def by (intro quiet_intros quiet_Todo_update)

lemma with_dueAt_returns: "\<exists>ps. with_dueAt b p w = (Inr ps, w)"
  by (simp add: with_dueAt_def bindE_def new_Date_def createUTCDate_def returnE_def)

lemma getTodoList_unfold:
  "getTodoList this_sql req =
     (if filter_rejected req then res_send (bad_request ''Invalid filter parameter.'')
      else if sortBy_rejected req then res_send (bad_request ''Invalid sortBy parameter.'')
      else if orderBy_rejected req then res_send (bad_request ''Invalid orderBy parameter.'')
      else
        bindE (catchE
                 (Todo_readAll this_sql (Some (status_filter req))
                    (Some (sortBy_param req)) (Some (orderBy_param req)))
                 (\<lambda>error.
                    bindE (console_error (''Error while getting todo list: '' @ error_text error)) (\<lambda>_.
                    bindE (res_send \<lparr>statusCode = InternalServerError,
                                     message = ''Error while getting todo list: '' @ error_text error,
                                     payload = NoPayload\<rparr>) (\<lambda>_.
                    returnE [])))) (\<lambda>todos.
        res_send \<lparr>statusCode = OK, message = ''Todo list retrieved'',
                  payload = TodosPayload (map props todos)\<rparr>))"
  unfolding getTodoList_def filter_rejected_def sortBy_rejected_def orderBy_rejected_def
    sortBy_param_def orderBy_param_def status_filter_def bad_request_def Let_def
  by (rule refl)

text \<open>
  C5. The validation checks of GET /todos run in the order status filter, sortBy, orderBy.
  The first check that fails sends 400 Bad Request with its own message and ends the
  handler: the world is otherwise unchanged, so no connection was reserved and no statement
  ran.
\<close>

theorem getTodoList_validation_order:
  "(filter_rejected req \<longrightarrow>
      getTodoList this_sql req w
        = (Inr (), w\<lparr>events := events w @ [Send (bad_request ''Invalid filter parameter.'')]\<rparr>))
   \<and> (\<not> filter_rejected req \<and> sortBy_rejected req \<longrightarrow>
      getTodoList this_sql req w
        = (Inr (), w\<lparr>events := events w @ [Send (bad_request ''Invalid sortBy parameter.'')]\<rparr>))
   \<and> (\<not> filter_rejected req \<and> \<not> sortBy_rejected req \<and> orderBy_rejected req \<longrightarrow>
      getTodoList this_sql req w
        = (Inr (), w\<lparr>events := events w @ [Send (bad_request ''Invalid orderBy parameter.'')]\<rparr>))"
  by (simp add: getTodoList_unfold res_send_def emit_def)

theorem getTodoList_validation_order_witness:
  "filter_rejected (get_todos [(''status'', ''bogus''), (''sortBy'', ''bogus''), (''orderBy'', ''bogus'')])
   \<and> events (snd (getTodoList pg (get_todos [(''status'', ''bogus''), (''sortBy'', ''bogus''), (''orderBy'', ''bogus'')])
                    sample_world))
       = [Send \<lparr>statusCode = BadRequest, message = ''Invalid filter parameter.'', payload = NoPayload\<rparr>]
   \<and> store (snd (getTodoList pg (get_todos [(''status'', ''bogus''), (''sortBy'', ''bogus''), (''orderBy'', ''bogus'')])
                    sample_world)) = store sample_world
   \<and> \<not> filter_rejected (get_todos [(''status'', ''complete''), (''sortBy'', ''bogus''), (''orderBy'', ''bogus'')])
   \<and> sortBy_rejected (get_todos [(''status'', ''complete''), (''sortBy'', ''bogus''), (''orderBy'', ''bogus'')])
   \<and> events (snd (getTodoList pg (get_todos [(''status'', ''complete''), (''sortBy'', ''bogus''), (''orderBy'', ''bogus'')])
                    sample_world))
       = [Send \<lparr>statusCode = BadRequest, message = ''Invalid sortBy parameter.'', payload = NoPayload\<rparr>]
   \<and> \<not> filter_rejected (get_todos [(''sortBy'', ''title''), (''orderBy'', ''bogus'')])
   \<and> \<not> sortBy_rejected (get_todos [(''sortBy'', ''title''), (''orderBy'', ''bogus'')])
   \<and> orderBy_rejected (get_todos [(''sortBy'', ''title''), (''orderBy'', ''bogus'')])
   \<and> events (snd (getTodoList pg (get_todos [(''sortBy'', ''title''), (''orderBy'', ''bogus'')])
                    sample_world))
       = [Send \<lparr>statusCode = BadRequest, message = ''Invalid orderBy parameter.'', payload = NoPayload\<rparr>]"
proof -
  let ?r1 = "get_todos [(''status'', ''bogus''), (''sortBy'', ''bogus''), (''orderBy'', ''bogus'')]"
  let ?r2 = "get_todos [(''status'', ''complete''), (''sortBy'', ''bogus''), (''orderBy'', ''bogus'')]"
  let ?r3 = "get_todos [(''sortBy'', ''title''), (''orderBy'', ''bogus'')]"
  have f1: "filter_rejected ?r1"
    by (simp add: filter_rejected_def get_todos_def get_prop_def)
  have f2: "\<not> filter_rejected ?r2" and s2: "sortBy_rejected ?r2"
    by (simp_all add: filter_rejected_def sortBy_rejected_def sortBy_param_def isSortByValid_def
        get_todos_def get_prop_def)
  have f3: "\<not> filter_rejected ?r3" and s3: "\<not> sortBy_rejected ?r3" and o3: "orderBy_rejected ?r3"
    by (simp_all add: filter_rejected_def sortBy_rejected_def sortBy_param_def isSortByValid_def
        orderBy_rejected_def orderBy_param_def isOrderByValid_def get_todos_def get_prop_def)
  show ?thesis
    using getTodoList_validation_order[of ?r1 pg sample_world]
      getTodoList_validation_order[of ?r2 pg sample_world]
      getTodoList_validation_order[of ?r3 pg sample_world]
      f1 f2 s2 f3 s3 o3
    by (simp add: bad_request_def sample_world_def)
qed

text \<open>
  C1. The controller's whitelist is not the entity's: at \<open>sortBy=editedAt\<close>, a column the
  entity's \<open>getSortBy\<close> resolves to \<open>edited_at\<close>, the controller answers 400 and performs no
  entity operation (likewise \<open>status\<close> and \<open>completedAt\<close>); and it accepts \<open>updatedAt\<close>, which
  the entity does not know and orders by \<open>id\<close>.
\<close>

theorem sortBy_editedAt_rejected:
  "getSortBy ''editedAt'' = ''edited_at''
   \<and> \<not> isSortByValid ''editedAt'' \<and> \<not> isSortByValid ''status'' \<and> \<not> isSortByValid ''completedAt''
   \<and> getTodoList this_sql (get_todos [(''sortBy'', ''editedAt'')]) w
       = (Inr (), w\<lparr>events := events w @ [Send (bad_request ''Invalid sortBy parameter.'')]\<rparr>)
   \<and> isSortByValid ''updatedAt'' \<and> getSortBy ''updatedAt'' = ''id''"
proof -
  let ?req = "get_todos [(''sortBy'', ''editedAt'')]"
  have a: "\<not> filter_rejected ?req"
    by (simp add: filter_rejected_def get_todos_def get_prop_def)
  have b: "sortBy_rejected ?req"
    by (simp add: sortBy_rejected_def sortBy_param_def isSortByValid_def get_todos_def get_prop_def)
  have "getTodoList this_sql ?req w
       = (Inr (), w\<lparr>events := events w @ [Send (bad_request ''Invalid sortBy parameter.'')]\<rparr>)"
    using a b by (simp add: getTodoList_unfold res_send_def emit_def)
  then show ?thesis
    by (simp add: isSortByValid_def getSortBy_def)
qed

text \<open>
  C2. In \<open>updateTodo\<close>, \<open>deleteTodo\<close> and \<open>completeTodo\<close>, when the path id is a number and the
  initial \<open>Todo.read\<close> throws, the handler writes one log line and returns: no response is
  sent, neither by the failed read nor by the handler.
\<close>

theorem read_throws_no_response:
  assumes "getId req = Some n" and "Todo_read this_sql n w = (Inl e, w')"
  shows "updateTodo this_sql req w
           = (Inr (), w'\<lparr>events := events w' @ [ConsoleError (''Error while updating todo: '' @ error_text e)]\<rparr>)
       \<and> deleteTodo this_sql req w
           = (Inr (), w'\<lparr>events := events w' @ [ConsoleError (''Error while deleting todo: '' @ error_text e)]\<rparr>)
       \<and> completeTodo this_sql req w
           = (Inr (), w'\<lparr>events := events w' @ [ConsoleError (''Error while marking todo as complete: '' @ error_text e)]\<rparr>)
       \<and> sends (events (snd (updateTodo this_sql req w))) = sends (events w)
       \<and> sends (events (snd (deleteTodo this_sql req w))) = sends (events w)
       \<and> sends (events (snd (completeTodo this_sql req w))) = sends (events w)"
proof -
  have q: "sends (events w') = sends (events w)"
    using quietD[OF quiet_Todo_read assms(2)] by simp
  obtain ps where ps: "with_dueAt (body req) (updateTodo_props (body req)) w = (Inr ps, w)"
    using with_dueAt_returns by blast
  have u: "updateTodo this_sql req w
           = (Inr (), w'\<lparr>events := events w' @ [ConsoleError (''Error while updating todo: '' @ error_text e)]\<rparr>)"
    unfolding updateTodo_def
    by (simp add: assms bindE_def catchE_def ps console_error_def emit_def)
  have d: "deleteTodo this_sql req w
           = (Inr (), w'\<lparr>events := events w' @ [ConsoleError (''Error while deleting todo: '' @ error_text e)]\<rparr>)"
    unfolding deleteTodo_def
    by (simp add: assms bindE_def catchE_def console_error_def emit_def)
  have c: "completeTodo this_sql req w
           = (Inr (), w'\<lparr>events := events w' @ [ConsoleError (''Error while marking todo as complete: '' @ error_text e)]\<rparr>)"
    unfolding completeTodo_def
    by (simp add: assms bindE_def catchE_def console_error_def emit_def)
  show ?thesis
    by (simp add: u d c q sends_append)
qed

lemma Todo_read_unreachable:
  "Todo_read unreachable n w
     = (Inl (DbError ''connection refused''), w\<lparr>events := events w @ [DbReserve]\<rparr>)"
  by (simp add: Todo_read_def bindE_def sql_reserve_def unreachable_def)

theorem read_throws_no_response_witness:
  "getId (with_id 1 [(''title'', Str ''Updated title'')]) = Some 1
   \<and> Todo_read unreachable 1 sample_world
       = (Inl (DbError ''connection refused''), sample_world\<lparr>events := [DbReserve]\<rparr>)
   \<and> events (snd (updateTodo unreachable (with_id 1 [(''title'', Str ''Updated title'')]) sample_world))
       = [DbReserve, ConsoleError ''Error while updating todo: PostgresError: connection refused'']
   \<and> events (snd (deleteTodo unreachable (with_id 1 [(''title'', Str ''Updated title'')]) sample_world))
       = [DbReserve, ConsoleError ''Error while deleting todo: PostgresError: connection refused'']
   \<and> events (snd (completeTodo unreachable (with_id 1 [(''title'', Str ''Updated title'')]) sample_world))
       = [DbReserve, ConsoleError ''Error while marking todo as complete: PostgresError: connection refused'']
   \<and> sends (events (snd (updateTodo unreachable (with_id 1 [(''title'', Str ''Updated title'')]) sample_world))) = []"
proof -
  let ?req = "with_id 1 [(''title'', Str ''Updated title'')]"
  have i: "getId ?req = Some 1"
    by (simp add: with_id_def)
  have r: "Todo_read unreachable 1 sample_world
       = (Inl (DbError ''connection refused''), sample_world\<lparr>events := [DbReserve]\<rparr>)"
    by (simp add: Todo_read_unreachable sample_world_def)
  show ?thesis
    using read_throws_no_response[OF i r] i r by (simp add: sample_world_def)
qed

text \<open>
  C3. When the three validation checks pass and \<open>Todo.readAll\<close> throws, \<open>getTodoList\<close> logs
  the error, sends a 500 response and then, the catch block not returning, sends a 200
  response with an empty list. When the path id is a number and \<open>Todo.read\<close> throws,
  \<open>getTodo\<close> logs the error, sends a 500 response and then a 404 response. The entity
  operation itself sends nothing, so each handler sends exactly these two responses.
\<close>

theorem storage_error_sends_twice:
  "(\<not> filter_rejected req \<and> \<not> sortBy_rejected req \<and> \<not> orderBy_rejected req
      \<and> Todo_readAll this_sql (Some (status_filter req)) (Some (sortBy_param req))
            (Some (orderBy_param req)) w = (Inl e, w') \<longrightarrow>
      getTodoList this_sql req w
        = (Inr (), w'\<lparr>events := events w' @
             [ConsoleError (''Error while getting todo list: '' @ error_text e),
              Send \<lparr>statusCode = InternalServerError,
                    message = ''Error while getting todo list: '' @ error_text e,
                    payload = NoPayload\<rparr>,
              Send \<lparr>statusCode = OK, message = ''Todo list retrieved'',
                    payload = TodosPayload []\<rparr>]\<rparr>)
      \<and> sends (events w') = sends (events w))
   \<and> (getId req = Some n \<and> Todo_read this_sql n w = (Inl e, w') \<longrightarrow>
      getTodo this_sql req w
        = (Inr (), w'\<lparr>events := events w' @
             [ConsoleError (''Error while getting todo list: '' @ error_text e),
              Send \<lparr>statusCode = InternalServerError,
                    message = ''Error while getting todo list: '' @ error_text e,
                    payload = NoPayload\<rparr>,
              Send \<lparr>statusCode = NotFound, message = ''Not found'', payload = NoPayload\<rparr>]\<rparr>)
      \<and> sends (events w') = sends (events w))"
proof (intro conjI impI)
  assume a: "\<not> filter_rejected req \<and> \<not> sortBy_rejected req \<and> \<not> orderBy_rejected req
      \<and> Todo_readAll this_sql (Some (status_filter req)) (Some (sortBy_param req))
            (Some (orderBy_param req)) w = (Inl e, w')"
  then have r: "Todo_readAll this_sql (Some (status_filter req)) (Some (sortBy_param req))
            (Some (orderBy_param req)) w = (Inl e, w')"
    by simp
  show "getTodoList this_sql req w
        = (Inr (), w'\<lparr>events := events w' @
             [ConsoleError (''Error while getting todo list: '' @ error_text e),
              Send \<lparr>statusCode = InternalServerError,
                    message = ''Error while getting todo list: '' @ error_text e,
                    payload = NoPayload\<rparr>,
              Send \<lparr>statusCode = OK, message = ''Todo list retrieved'',
                    payload = TodosPayload []\<rparr>]\<rparr>)"
    using a
    by (simp add: getTodoList_unfold bindE_def catchE_def console_error_def res_send_def
        emit_def returnE_def)
  show "sends (events w') = sends (events w)"
    using quietD[OF quiet_Todo_readAll r] by simp
next
  assume a: "getId req = Some n \<and> Todo_read this_sql n w = (Inl e, w')"
  then have r: "Todo_read this_sql n w = (Inl e, w')"
    by simp
  show "getTodo this_sql req w
        = (Inr (), w'\<lparr>events := events w' @
             [ConsoleError (''Error while getting todo list: '' @ error_text e),
              Send \<lparr>statusCode = InternalServerError,
                    message = ''Error while getting todo list: '' @ error_text e,
                    payload = NoPayload\<rparr>,
              Send \<lparr>statusCode = NotFound, message = ''Not found'', payload = NoPayload\<rparr>]\<rparr>)"
    using a unfolding getTodo_def
    by (simp add: bindE_def catchE_def console_error_def res_send_def emit_def returnE_def)
  show "sends (events w') = sends (events w)"
    using quietD[OF quiet_Todo_read r] by simp
qed

lemma Todo_readAll_unreachable:
  "Todo_readAll unreachable f s ob w
     = (Inl (DbError ''connection refused''), w\<lparr>events := events w @ [DbReserve]\<rparr>)"
  by (simp add: Todo_readAll_def bindE_def sql_reserve_def unreachable_def)

theorem storage_error_sends_twice_witness:
  "\<not> filter_rejected (with_id 1 []) \<and> \<not> sortBy_rejected (with_id 1 []) \<and> \<not> orderBy_rejected (with_id 1 [])
   \<and> Todo_readAll unreachable (Some (status_filter (with_id 1 []))) (Some (sortBy_param (with_id 1 [])))
        (Some (orderBy_param (with_id 1 []))) sample_world
       = (Inl (DbError ''connection refused''), sample_world\<lparr>events := [DbReserve]\<rparr>)
   \<and> getId (with_id 1 []) = Some 1
   \<and> Todo_read unreachable 1 sample_world
       = (Inl (DbError ''connection refused''), sample_world\<lparr>events := [DbReserve]\<rparr>)
   \<and> sends (events (snd (getTodoList unreachable (with_id 1 []) sample_world)))
       = [\<lparr>statusCode = InternalServerError,
           message = ''Error while getting todo list: PostgresError: connection refused'',
           payload = NoPayload\<rparr>,
          \<lparr>statusCode = OK, message = ''Todo list retrieved'', payload = TodosPayload []\<rparr>]
   \<and> sends (events (snd (getTodo unreachable (with_id 1 []) sample_world)))
       = [\<lparr>statusCode = InternalServerError,
           message = ''Error while getting todo list: PostgresError: connection refused'',
           payload = NoPayload\<rparr>,
          \<lparr>statusCode = NotFound, message = ''Not found'', payload = NoPayload\<rparr>]"
proof -
  let ?req = "with_id 1 []"
  have v: "\<not> filter_rejected ?req" "\<not> sortBy_rejected ?req" "\<not> orderBy_rejected ?req"
    by (simp_all add: filter_rejected_def sortBy_rejected_def sortBy_param_def isSortByValid_def
        orderBy_rejected_def orderBy_param_def isOrderByValid_def with_id_def get_prop_def)
  have ra: "Todo_readAll unreachable (Some (status_filter ?req)) (Some (sortBy_param ?req))
        (Some (orderBy_param ?req)) sample_world
       = (Inl (DbError ''connection refused''), sample_world\<lparr>events := [DbReserve]\<rparr>)"
    by (simp add: Todo_readAll_unreachable sample_world_def)
  have i: "getId ?req = Some 1"
    by (simp add: with_id_def)
  have r: "Todo_read unreachable 1 sample_world
       = (Inl (DbError ''connection refused''), sample_world\<lparr>events := [DbReserve]\<rparr>)"
    by (simp add: Todo_read_unreachable sample_world_def)
  show ?thesis
    using storage_error_sends_twice[of ?req unreachable sample_world "DbError ''connection refused''"
        "sample_world\<lparr>events := [DbReserve]\<rparr>" 1] v ra i r
    by (simp add: sample_world_def)
qed

lemma snakeToCamel_columns:
  "snakeToCamel ''id'' = ''id''"
  "snakeToCamel ''title'' = ''title''"
  "snakeToCamel ''description'' = ''description''"
  "snakeToCamel ''status'' = ''status''"
  "snakeToCamel ''due_at'' = ''dueAt''"
  "snakeToCamel ''created_at'' = ''createdAt''"
  "snakeToCamel ''completed_at'' = ''completedAt''"
  "snakeToCamel ''edited_at'' = ''editedAt''"
  by code_simp+

lemma camelToSnake_fields:
  "camelToSnake ''id'' = ''id''"
  "camelToSnake ''title'' = ''title''"
  "camelToSnake ''description'' = ''description''"
  "camelToSnake ''status'' = ''status''"
  "camelToSnake ''dueAt'' = ''due_at''"
  "camelToSnake ''createdAt'' = ''created_at''"
  "camelToSnake ''completedAt'' = ''completed_at''"
  "camelToSnake ''editedAt'' = ''edited_at''"
  by code_simp+

text \<open>A row of the reference database, as the entity holds it after conversion.\<close>

lemma props_of_row:
  "convertToCase snakeToCamel (row_obj r) =
     [(''id'', Num (r_id r)),
      (''title'', Str (r_title r)),
      (''description'', Str (r_description r)),
      (''status'', text_cell (r_status r)),
      (''dueAt'', time_cell (r_due_at r)),
      (''createdAt'', time_cell (r_created_at r)),
      (''completedAt'', time_cell (r_completed_at r)),
      (''editedAt'', time_cell (r_edited_at r))]"
  by (simp add: convertToCase_def row_obj_def snakeToCamel_columns)

lemma milk_props_eq: "convertToCase snakeToCamel (row_obj milk_row) = milk_props"
  by (simp add: props_of_row milk_row_def milk_props_def text_cell_def time_cell_def)

lemma Todo_read_pg:
  "Todo_read pg n w =
     (Inr (case filter (\<lambda>r. r_id r = n) (todos (store w)) of
             [] \<Rightarrow> None
           | r # rs \<Rightarrow> Some \<lparr>sql = pg, props = convertToCase snakeToCamel (row_obj r)\<rparr>),
      w\<lparr>events := events w @ [DbReserve, DbQuery (SelectById (Num n)), DbRelease]\<rparr>)"
  by (simp add: Todo_read_def bindE_def sql_reserve_def connection_def connection_release_def
      pg_def first_row_def returnE_def split: list.splits)

lemma growsD: "grows m \<Longrightarrow> m w = (r, w') \<Longrightarrow> \<exists>es. events w' = events w @ es"
  unfolding grows_def by (metis snd_conv)

lemma grows_returnE: "grows (returnE x)"
  by (simp add: grows_def returnE_def)

lemma grows_throwE: "grows (throwE e)"
  by (simp add: grows_def throwE_def)

lemma grows_bindE:
  assumes "grows m" and "\<And>x. grows (f x)"
  shows "grows (bindE m f)"
  unfolding grows_def
proof
  fix w
  obtain r w1 where m: "m w = (r, w1)"
    by (cases "m w")
  obtain es1 where es1: "events w1 = events w @ es1"
    using growsD[OF assms(1) m] by blast
  show "\<exists>es. events (snd (bindE m f w)) = events w @ es"
  proof (cases r)
    case (Inl e)
    then show ?thesis
      by (simp add: bindE_def m es1)
  next
    case (Inr x)
    obtain r2 w2 where f: "f x w1 = (r2, w2)"
      by (cases "f x w1")
    obtain es2 where "events w2 = events w1 @ es2"
      using growsD[OF assms(2) f] by blast
    then show ?thesis
      by (simp add: bindE_def m Inr f es1)
  qed
qed

lemma grows_connection: "grows (connection db q)"
  by (auto simp: grows_def connection_def split: prod.splits)

lemma grows_connection_release: "grows (connection_release db)"
  by (auto simp: grows_def connection_release_def split: prod.splits option.splits)

lemma grows_createUTCDate: "grows (createUTCDate d)"
  by (auto simp: grows_def createUTCDate_def split: option.splits)

lemma grows_row_props: "grows (row_props row)"
  by (cases row) (simp_all add: row_props_def grows_returnE grows_throwE)

lemma Todo_create_starts_with_reserve:
  "\<exists>es. events (snd (Todo_create db ps w)) = events w @ DbReserve # es"
proof -
  let ?rest = "\<lambda>u::unit.
     bindE (if nullish (field ''createdAt'' ps) then createUTCDate None
            else returnE (field ''createdAt'' ps)) (\<lambda>createdAt.
     bindE (connection db
              (Insert (convertToCase camelToSnake (set_prop ''createdAt'' createdAt ps)))) (\<lambda>res.
     bindE (connection_release db) (\<lambda>_.
     bindE (row_props (first_row res)) (\<lambda>ps'.
     returnE \<lparr>sql = db, props = ps'\<rparr>))))"
  have rest: "grows (?rest ())"
    by (intro grows_bindE grows_connection grows_connection_release grows_row_props grows_returnE)
       (simp add: grows_createUTCDate grows_returnE)
  have unfold: "Todo_create db ps = bindE (sql_reserve db) ?rest"
    by (simp add: Todo_create_def)
  obtain r w1 where res: "sql_reserve db w = (r, w1)"
    by (cases "sql_reserve db w")
  then have ev1: "events w1 = events w @ [DbReserve]"
    by (auto simp: sql_reserve_def split: prod.splits option.splits)
  show ?thesis
  proof (cases r)
    case (Inl e)
    then show ?thesis
      by (simp add: unfold bindE_def res ev1)
  next
    case (Inr u)
    obtain r2 w2 where f: "?rest () w1 = (r2, w2)"
      by (cases "?rest () w1")
    obtain es where "events w2 = events w1 @ es"
      using growsD[OF rest f] by blast
    then show ?thesis
      using f by (simp add: unfold bindE_def res Inr ev1)
  qed
qed

lemma get_prop_set_prop:
  "get_prop k (set_prop k' v ps) = (if k = k' then Some v else get_prop k ps)"
  by (induction ps) (auto simp: get_prop_def)

lemma with_dueAt_fields:
  "with_dueAt b p w = (Inr ps, w') \<Longrightarrow>
   w' = w \<and> field ''title'' ps = field ''title'' p \<and> field ''description'' ps = field ''description'' p"
  by (auto simp: with_dueAt_def bindE_def new_Date_def createUTCDate_def returnE_def field_def
      get_prop_set_prop split: if_splits)

text \<open>The rest of \<open>createTodo\<close> once the properties are built: the call of \<open>Todo.create\<close>
  in its \<open>try\<close> block and the response.\<close>

lemma createTodo_unfold:
  "createTodo this_sql req w =
     (case with_dueAt (body req) (createTodo_props (body req) (Date (clock w (ticks w))))
             (w\<lparr>ticks := Suc (ticks w)\<rparr>) of
        (Inl e, w1) \<Rightarrow> (Inl e, w1)
      | (Inr todoProps, w1) \<Rightarrow>
          (case Todo_create this_sql todoProps w1 of
             (Inl e, w2) \<Rightarrow>
               (Inr (), w2\<lparr>events := events w2 @
                  [ConsoleError (''Error while creating todo: '' @ error_text e),
                   Send \<lparr>statusCode = InternalServerError, message = ''Error while creating todo'',
                         payload = NoPayload\<rparr>]\<rparr>)
           | (Inr t, w2) \<Rightarrow>
               (Inr (), w2\<lparr>events := events w2 @
                  [Send \<lparr>statusCode = Created, message = ''Todo created successfully!'',
                         payload = TodoPayload (props t)\<rparr>]\<rparr>)))"
  by (simp add: createTodo_def bindE_def catchE_def createUTCDate_def returnE_def
      console_error_def res_send_def emit_def split: prod.splits sum.splits)

text \<open>
  C10. \<open>createTodo\<close> does not validate the body. For every request, the \<open>title\<close> and
  \<open>description\<close> fields of the body, whatever they are, are in the properties handed to
  \<open>Todo.create\<close>; the entity operation is always attempted (a connection is reserved); and
  exactly one response is sent, with status 201 or 500, never 400. The guard
  \<open>isValidTodoProps\<close> does not occur in \<open>createTodo\<close>.
\<close>

theorem createTodo_no_validation:
  "(\<exists>todoProps w1.
      field ''title'' todoProps = field ''title'' (body req)
      \<and> field ''description'' todoProps = field ''description'' (body req)
      \<and> events w1 = events w \<and> store w1 = store w
      \<and> events (snd (createTodo this_sql req w))
          = events (snd (Todo_create this_sql todoProps w1))
            @ (case fst (Todo_create this_sql todoProps w1) of
                 Inl e \<Rightarrow>
                   [ConsoleError (''Error while creating todo: '' @ error_text e),
                    Send \<lparr>statusCode = InternalServerError, message = ''Error while creating todo'',
                          payload = NoPayload\<rparr>]
               | Inr t \<Rightarrow>
                   [Send \<lparr>statusCode = Created, message = ''Todo created successfully!'',
                          payload = TodoPayload (props t)\<rparr>]))
   \<and> (\<exists>es. events (snd (createTodo this_sql req w)) = events w @ DbReserve # es)
   \<and> (\<exists>r. sends (events (snd (createTodo this_sql req w))) = sends (events w) @ [r]
          \<and> (statusCode r = Created \<or> statusCode r = InternalServerError))"
proof -
  let ?w0 = "w\<lparr>ticks := Suc (ticks w)\<rparr>"
  let ?p0 = "createTodo_props (body req) (Date (clock w (ticks w)))"
  obtain ps where ps: "with_dueAt (body req) ?p0 ?w0 = (Inr ps, ?w0)"
    using with_dueAt_returns by blast
  have fields: "field ''title'' ps = field ''title'' (body req)"
      "field ''description'' ps = field ''description'' (body req)"
    using with_dueAt_fields[OF ps] by (simp_all add: createTodo_props_def field_def get_prop_def)
  obtain r w2 where c: "Todo_create this_sql ps ?w0 = (r, w2)"
    by (cases "Todo_create this_sql ps ?w0")
  have q: "sends (events w2) = sends (events w)"
    using quietD[OF quiet_Todo_create c] by simp
  obtain es where es: "events w2 = events w @ DbReserve # es"
    using Todo_create_starts_with_reserve[of this_sql ps ?w0] c by auto
  have ev: "events (snd (createTodo this_sql req w))
          = events w2
            @ (case r of
                 Inl e \<Rightarrow>
                   [ConsoleError (''Error while creating todo: '' @ error_text e),
                    Send \<lparr>statusCode = InternalServerError, message = ''Error while creating todo'',
                          payload = NoPayload\<rparr>]
               | Inr t \<Rightarrow>
                   [Send \<lparr>statusCode = Created, message = ''Todo created successfully!'',
                          payload = TodoPayload (props t)\<rparr>])"
    by (cases r) (simp_all add: createTodo_unfold ps c)
  have one: "\<exists>todoProps w1.
      field ''title'' todoProps = field ''title'' (body req)
      \<and> field ''description'' todoProps = field ''description'' (body req)
      \<and> events w1 = events w \<and> store w1 = store w
      \<and> events (snd (createTodo this_sql req w))
          = events (snd (Todo_create this_sql todoProps w1))
            @ (case fst (Todo_create this_sql todoProps w1) of
                 Inl e \<Rightarrow>
                   [ConsoleError (''Error while creating todo: '' @ error_text e),
                    Send \<lparr>statusCode = InternalServerError, message = ''Error while creating todo'',
                          payload = NoPayload\<rparr>]
               | Inr t \<Rightarrow>
                   [Send \<lparr>statusCode = Created, message = ''Todo created successfully!'',
                          payload = TodoPayload (props t)\<rparr>])"
    by (rule exI[of _ ps], rule exI[of _ ?w0]) (simp add: fields ev c)
  have two: "\<exists>es. events (snd (createTodo this_sql req w)) = events w @ DbReserve # es"
    by (cases r) (simp_all add: ev es)
  have three: "\<exists>r. sends (events (snd (createTodo this_sql req w))) = sends (events w) @ [r]
          \<and> (statusCode r = Created \<or> statusCode r = InternalServerError)"
    by (cases r) (simp_all add: ev sends_append q)
  show ?thesis
    using one two three by blast
qed

text \<open>A body without \<open>title\<close> and \<open>description\<close> fails the guard \<open>isValidTodoProps\<close> and
  still reaches the database, which rejects it: the answer is 500.\<close>

lemma createTodo_empty_body:
  "\<not> isValidTodoProps []
   \<and> events (snd (createTodo pg (with_id 1 []) sample_world))
       = [DbReserve,
          DbQuery (Insert [(''title'', Undefined), (''description'', Undefined),
                           (''status'', Str ''incomplete''), (''created_at'', Date 1000)]),
          ConsoleError ''Error while creating todo: PostgresError: UNDEFINED_VALUE'',
          Send \<lparr>statusCode = InternalServerError, message = ''Error while creating todo'',
                payload = NoPayload\<rparr>]"
  by (simp add: isValidTodoProps_def get_prop_def createTodo_unfold with_dueAt_def with_id_def
      createTodo_props_def field_def returnE_def sample_world_def Todo_create_def bindE_def
      sql_reserve_def connection_def pg_def convertToCase_def camelToSnake_fields
      pg_insert_def set_col_def blank_row_def)

text \<open>
  C6. \<open>Todo.delete\<close> returns whether the affected-row count of the \<open>DELETE\<close> statement is
  equal to 1. In \<open>deleteTodo\<close>, once the read has found the todo, a \<open>true\<close> return is answered
  with 200 and the todo's properties, a \<open>false\<close> return with 500 and an error message.
\<close>

theorem delete_count_mapping:
  "(reserve (sql t) (store w) = (None, s1)
      \<and> run (sql t) (Delete (field ''id'' (props t))) s1 = (Inr res, s2)
      \<and> release (sql t) s2 = (None, s3) \<longrightarrow>
      fst (Todo_delete t w) = Inr (count res = 1))
   \<and> (getId req = Some n \<and> Todo_read this_sql n w = (Inr (Some t), w1)
      \<and> Todo_delete t w1 = (Inr deleted, w2) \<longrightarrow>
      deleteTodo this_sql req w
        = (Inr (), w2\<lparr>events := events w2 @
            [Send (if deleted
                   then \<lparr>statusCode = OK, message = ''Todo deleted successfully!'',
                         payload = TodoPayload (props t)\<rparr>
                   else \<lparr>statusCode = InternalServerError,
                         message = ''Error while deleting todo.'', payload = NoPayload\<rparr>)]\<rparr>))"
  by (simp add: Todo_delete_def deleteTodo_def bindE_def catchE_def sql_reserve_def
      connection_def connection_release_def returnE_def res_send_def emit_def)

lemma Todo_delete_pg:
  "Todo_delete \<lparr>sql = pg, props = milk_props\<rparr> w =
     (Inr (length (filter (\<lambda>r. r_id r = 1) (todos (store w))) = 1),
      w\<lparr>store := (store w)\<lparr>todos := filter (\<lambda>r. r_id r \<noteq> 1) (todos (store w))\<rparr>,
        events := events w @ [DbReserve, DbQuery (Delete (Num 1)), DbRelease]\<rparr>)"
  by (simp add: Todo_delete_def bindE_def sql_reserve_def connection_def connection_release_def
      pg_def returnE_def milk_props_def field_def get_prop_def)

theorem delete_count_mapping_witness:
  "reserve pg (store milk_world) = (None, store milk_world)
   \<and> run pg (Delete (field ''id'' milk_props)) (store milk_world)
       = (Inr \<lparr>rows = [], count = 1\<rparr>, \<lparr>todos = [], next_id = 2\<rparr>)
   \<and> release pg \<lparr>todos = [], next_id = 2\<rparr> = (None, \<lparr>todos = [], next_id = 2\<rparr>)
   \<and> fst (Todo_delete \<lparr>sql = pg, props = milk_props\<rparr> milk_world) = Inr True
   \<and> getId (with_id 1 []) = Some 1
   \<and> fst (Todo_read pg 1 milk_world) = Inr (Some \<lparr>sql = pg, props = milk_props\<rparr>)
   \<and> sends (events (snd (deleteTodo pg (with_id 1 []) milk_world)))
       = [\<lparr>statusCode = OK, message = ''Todo deleted successfully!'',
           payload = TodoPayload milk_props\<rparr>]
   \<and> todos (store (snd (deleteTodo pg (with_id 1 []) milk_world))) = []"
proof -
  let ?t = "\<lparr>sql = pg, props = milk_props\<rparr>"
  let ?w1 = "milk_world\<lparr>events := [DbReserve, DbQuery (SelectById (Num 1)), DbRelease]\<rparr>"
  let ?w2 = "milk_world\<lparr>store := \<lparr>todos = [], next_id = 2\<rparr>,
               events := [DbReserve, DbQuery (SelectById (Num 1)), DbRelease,
                          DbReserve, DbQuery (Delete (Num 1)), DbRelease]\<rparr>"
  have a: "reserve pg (store milk_world) = (None, store milk_world)"
    by (simp add: pg_def)
  have b: "run pg (Delete (field ''id'' milk_props)) (store milk_world)
       = (Inr \<lparr>rows = [], count = 1\<rparr>, \<lparr>todos = [], next_id = 2\<rparr>)"
    by (simp add: pg_def milk_props_def field_def get_prop_def milk_world_def sample_world_def
        milk_row_def)
  have c: "release pg \<lparr>todos = [], next_id = 2\<rparr> = (None, \<lparr>todos = [], next_id = 2\<rparr>)"
    by (simp add: pg_def)
  have i: "getId (with_id 1 []) = Some 1"
    by (simp add: with_id_def)
  have r: "Todo_read pg 1 milk_world = (Inr (Some ?t), ?w1)"
    by (simp add: Todo_read_pg milk_world_def sample_world_def milk_props_eq)
       (simp add: milk_row_def)
  have d: "Todo_delete ?t ?w1 = (Inr True, ?w2)"
    by (simp add: Todo_delete_pg milk_world_def sample_world_def milk_row_def)
  show ?thesis
    using delete_count_mapping[of ?t milk_world "store milk_world" "\<lparr>rows = [], count = 1\<rparr>"
        "\<lparr>todos = [], next_id = 2\<rparr>" "\<lparr>todos = [], next_id = 2\<rparr>" "with_id 1 []" 1 pg ?w1 True ?w2]
      a b c i r d
    by (simp add: milk_world_def sample_world_def)
qed

text \<open>When another client has removed the row between the read and the delete, the
  statement affects no row, \<open>Todo.delete\<close> returns \<open>false\<close> and the answer is 500.\<close>

lemma deleteTodo_zero_rows:
  "sends (events (snd (deleteTodo pg_raced (with_id 1 []) milk_world)))
     = [\<lparr>statusCode = InternalServerError, message = ''Error while deleting todo.'',
         payload = NoPayload\<rparr>]"
  by (simp add: deleteTodo_def with_id_def Todo_read_def Todo_delete_def bindE_def catchE_def
      sql_reserve_def connection_def connection_release_def pg_raced_def first_row_def
      returnE_def res_send_def emit_def milk_world_def sample_world_def milk_row_def)

section \<open>Ordering of \<open>readAll\<close>\<close>

lemma getSortBy_column: "getSortBy s \<in> set columns"
  by (simp add: getSortBy_def columns_def)

lemma col_key_each:
  "col_key ''id'' r = cell_key (Num (r_id r))"
  "col_key ''title'' r = cell_key (Str (r_title r))"
  "col_key ''description'' r = cell_key (Str (r_description r))"
  "col_key ''status'' r = cell_key (text_cell (r_status r))"
  "col_key ''due_at'' r = cell_key (time_cell (r_due_at r))"
  "col_key ''created_at'' r = cell_key (time_cell (r_created_at r))"
  "col_key ''completed_at'' r = cell_key (time_cell (r_completed_at r))"
  "col_key ''edited_at'' r = cell_key (time_cell (r_edited_at r))"
  by (simp_all add: col_key_def row_obj_def field_def get_prop_def)

lemma prop_key_row_each:
  "prop_key ''id'' (convertToCase snakeToCamel (row_obj r)) = col_key ''id'' r"
  "prop_key ''title'' (convertToCase snakeToCamel (row_obj r)) = col_key ''title'' r"
  "prop_key ''description'' (convertToCase snakeToCamel (row_obj r)) = col_key ''description'' r"
  "prop_key ''status'' (convertToCase snakeToCamel (row_obj r)) = col_key ''status'' r"
  "prop_key ''due_at'' (convertToCase snakeToCamel (row_obj r)) = col_key ''due_at'' r"
  "prop_key ''created_at'' (convertToCase snakeToCamel (row_obj r)) = col_key ''created_at'' r"
  "prop_key ''completed_at'' (convertToCase snakeToCamel (row_obj r)) = col_key ''completed_at'' r"
  "prop_key ''edited_at'' (convertToCase snakeToCamel (row_obj r)) = col_key ''edited_at'' r"
  by (simp_all add: prop_key_def col_key_each props_of_row snakeToCamel_columns
      field_def get_prop_def)

lemma prop_key_row:
  assumes "c \<in> set columns"
  shows "prop_key c (convertToCase snakeToCamel (row_obj r)) = col_key c r"
proof -
  from assms consider "c = ''id''" | "c = ''title''" | "c = ''description''" | "c = ''status''"
    | "c = ''due_at''" | "c = ''created_at''" | "c = ''completed_at''" | "c = ''edited_at''"
    unfolding columns_def by fastforce
  then show ?thesis
    by cases (simp_all only: prop_key_row_each)
qed

lemma where_rows_ok:
  "status_filter_ok filters \<Longrightarrow>
   \<exists>rs'. where_rows
            (case filters of
               None \<Rightarrow> None
             | Some f \<Rightarrow> if truthy (field ''status'' f) then Some (field ''status'' f) else None) rs
          = Inr rs'"
  by (auto simp: status_filter_ok_def split: option.splits jsval.splits)

lemma Todo_readAll_pg:
  assumes "where_rows
             (case filters of
                None \<Rightarrow> None
              | Some f \<Rightarrow> if truthy (field ''status'' f) then Some (field ''status'' f) else None)
             (todos (store w)) = Inr rs"
    and "order_rows
           (case sortBy of None \<Rightarrow> None | Some s \<Rightarrow> if s \<noteq> [] then Some (getSortBy s) else None)
           (case orderBy of None \<Rightarrow> None | Some s \<Rightarrow> if s \<noteq> [] then Some (getOrderBy s) else None)
           rs = Inr rs'"
  shows "fst (Todo_readAll pg filters sortBy orderBy w)
         = Inr (map (\<lambda>x. \<lparr>sql = pg, props = convertToCase snakeToCamel (row_obj x)\<rparr>) rs')"
  unfolding Todo_readAll_def
  by (simp add: bindE_def sql_reserve_def connection_def connection_release_def pg_def
      pg_select_all_def assms returnE_def comp_def)

lemma order_rows_by_column:
  "s \<noteq> [] \<Longrightarrow> d \<noteq> [] \<Longrightarrow>
   order_rows (Some (getSortBy s)) (Some (getOrderBy d)) rs
     = Inr (if d = ''asc'' then sort_key (col_key (getSortBy s)) rs
            else rev (sort_key (col_key (getSortBy s)) rs))"
  using getSortBy_column[of s] by (simp add: order_rows_def getOrderBy_def)

text \<open>
  C4 (amended). On the reference database, for every call of \<open>Todo.readAll\<close> with a
  non-empty \<open>sortBy\<close> and a non-empty \<open>orderBy\<close>, the call returns, and the returned sequence
  is ordered ascending on the resolved sort column when \<open>orderBy\<close> is exactly \<open>asc\<close> and
  descending for every other value (\<open>desc\<close>, and also \<open>ASC\<close>, \<open>Asc\<close> or anything else).
\<close>

theorem readAll_order:
  assumes "status_filter_ok filters" and "sortBy \<noteq> []" and "orderBy \<noteq> []"
  shows "\<exists>ts. fst (Todo_readAll pg filters (Some sortBy) (Some orderBy) w) = Inr ts
      \<and> (orderBy = ''asc'' \<longrightarrow> sorted (map (\<lambda>t. prop_key (getSortBy sortBy) (props t)) ts))
      \<and> (orderBy \<noteq> ''asc'' \<longrightarrow> sorted (rev (map (\<lambda>t. prop_key (getSortBy sortBy) (props t)) ts)))"
proof -
  let ?c = "getSortBy sortBy"
  obtain rs where rs: "where_rows
             (case filters of
                None \<Rightarrow> None
              | Some f \<Rightarrow> if truthy (field ''status'' f) then Some (field ''status'' f) else None)
             (todos (store w)) = Inr rs"
    using where_rows_ok[OF assms(1)] by blast
  let ?rs' = "if orderBy = ''asc'' then sort_key (col_key ?c) rs else rev (sort_key (col_key ?c) rs)"
  let ?ts = "map (\<lambda>x. \<lparr>sql = pg, props = convertToCase snakeToCamel (row_obj x)\<rparr>) ?rs'"
  have ord: "order_rows
           (case Some sortBy of None \<Rightarrow> None | Some s \<Rightarrow> if s \<noteq> [] then Some (getSortBy s) else None)
           (case Some orderBy of None \<Rightarrow> None | Some s \<Rightarrow> if s \<noteq> [] then Some (getOrderBy s) else None)
           rs = Inr ?rs'"
    using order_rows_by_column[OF assms(2,3)] assms(2,3) by simp
  have res: "fst (Todo_readAll pg filters (Some sortBy) (Some orderBy) w) = Inr ?ts"
    by (rule Todo_readAll_pg[OF rs ord])
  have keys: "map (\<lambda>t. prop_key ?c (props t)) ?ts = map (col_key ?c) ?rs'"
    by (simp add: comp_def prop_key_row[OF getSortBy_column])
  have asc: "orderBy = ''asc'' \<longrightarrow> sorted (map (\<lambda>t. prop_key ?c (props t)) ?ts)"
    unfolding keys by simp
  have desc: "orderBy \<noteq> ''asc'' \<longrightarrow> sorted (rev (map (\<lambda>t. prop_key ?c (props t)) ?ts))"
    unfolding keys by (simp add: rev_map[symmetric])
  show ?thesis
    using res asc desc by blast
qed

lemma readAll_two_world:
  "fst (Todo_readAll pg None (Some ''id'') (Some d) two_world)
     = (if d = [] then Inr [\<lparr>sql = pg, props = milk_props\<rparr>, \<lparr>sql = pg, props = eggs_props\<rparr>]
        else if d = ''asc'' then Inr [\<lparr>sql = pg, props = milk_props\<rparr>, \<lparr>sql = pg, props = eggs_props\<rparr>]
        else Inr [\<lparr>sql = pg, props = eggs_props\<rparr>, \<lparr>sql = pg, props = milk_props\<rparr>])"
proof -
  have eggs: "convertToCase snakeToCamel (row_obj eggs_row) = eggs_props"
    by (simp add: props_of_row eggs_row_def eggs_props_def text_cell_def time_cell_def)
  have s: "col_key ''id'' milk_row \<le> col_key ''id'' eggs_row"
    by (simp add: col_key_each milk_row_def eggs_row_def)
  show ?thesis
    by (simp add: Todo_readAll_def bindE_def sql_reserve_def connection_def connection_release_def
        pg_def pg_select_all_def order_rows_def getSortBy_def getOrderBy_def columns_def
        two_world_def sample_world_def returnE_def s milk_props_eq eggs)
qed

theorem readAll_order_witness:
  "status_filter_ok None \<and> ''id'' \<noteq> [] \<and> ''desc'' \<noteq> []
   \<and> fst (Todo_readAll pg None (Some ''id'') (Some ''desc'') two_world)
       = Inr [\<lparr>sql = pg, props = eggs_props\<rparr>, \<lparr>sql = pg, props = milk_props\<rparr>]
   \<and> sorted (rev (map (\<lambda>t. prop_key (getSortBy ''id'') (props t))
                    [\<lparr>sql = pg, props = eggs_props\<rparr>, \<lparr>sql = pg, props = milk_props\<rparr>]))"
proof -
  have a: "status_filter_ok None"
    by (simp add: status_filter_ok_def)
  have b: "''id'' \<noteq> []" and c: "''desc'' \<noteq> []"
    by simp_all
  show ?thesis
    using readAll_order[OF a b c, of two_world] a
    by (simp add: readAll_two_world)
qed

text \<open>The claim as first stated, "ascending unless \<open>orderBy\<close> is exactly \<open>desc\<close>", fails at
  \<open>orderBy = ASC\<close>: the statement carries \<open>DESC\<close> and the rows come back in descending order
  of \<open>id\<close>.\<close>

theorem readAll_ASC_counterexample:
  "''ASC'' \<noteq> ''desc''
   \<and> fst (Todo_readAll pg None (Some ''id'') (Some ''ASC'') two_world)
       = Inr [\<lparr>sql = pg, props = eggs_props\<rparr>, \<lparr>sql = pg, props = milk_props\<rparr>]
   \<and> map (prop_key (getSortBy ''id'')) [eggs_props, milk_props] = [(0, 2, []), (0, 1, [])]
   \<and> \<not> sorted (map (prop_key (getSortBy ''id'')) [eggs_props, milk_props])"
  by (simp add: readAll_two_world getSortBy_def prop_key_def snakeToCamel_columns field_def
      get_prop_def eggs_props_def milk_props_def)

section \<open>Creation\<close>

lemma store_ok_fresh: "store_ok db \<Longrightarrow> next_id db \<notin> r_id ` set (todos db)"
  by (auto simp: store_ok_def list_all_iff)

lemma text_ok_literals: "text_ok ''incomplete''" "text_ok ''complete''"
  by (simp_all add: text_ok_def)

lemma insert_columns:
  "convertToCase camelToSnake
     ([(''title'', tv), (''description'', dv), (''status'', sv), (''createdAt'', c)])
   = [(''title'', tv), (''description'', dv), (''status'', sv), (''created_at'', c)]"
  "convertToCase camelToSnake
     ([(''title'', tv), (''description'', dv), (''status'', sv), (''createdAt'', c), (''dueAt'', x)])
   = [(''title'', tv), (''description'', dv), (''status'', sv), (''created_at'', c), (''due_at'', x)]"
  "convertToCase camelToSnake
     ([(''title'', tv), (''description'', dv), (''status'', sv), (''dueAt'', x), (''createdAt'', c)])
   = [(''title'', tv), (''description'', dv), (''status'', sv), (''due_at'', x), (''created_at'', c)]"
  by (simp_all add: convertToCase_def camelToSnake_fields)

lemma pg_insert_new:
  assumes "store_ok db" and "text_ok a" and "text_ok d"
  shows "storable c \<Longrightarrow>
         pg_insert [(''title'', Str a), (''description'', Str d), (''status'', Str ''incomplete''),
                    (''created_at'', Date c)] db
         = (Inr \<lparr>rows = [row_obj (created_row (next_id db) a d c None)], count = 1\<rparr>,
            db\<lparr>todos := todos db @ [created_row (next_id db) a d c None], next_id := next_id db + 1\<rparr>)"
    and "storable c \<Longrightarrow> storable x \<Longrightarrow>
         pg_insert [(''title'', Str a), (''description'', Str d), (''status'', Str ''incomplete''),
                    (''created_at'', Date c), (''due_at'', Date x)] db
         = (Inr \<lparr>rows = [row_obj (created_row (next_id db) a d c (Some x))], count = 1\<rparr>,
            db\<lparr>todos := todos db @ [created_row (next_id db) a d c (Some x)], next_id := next_id db + 1\<rparr>)"
    and "storable c \<Longrightarrow> storable x \<Longrightarrow>
         pg_insert [(''title'', Str a), (''description'', Str d), (''status'', Str ''incomplete''),
                    (''due_at'', Date x), (''created_at'', Date c)] db
         = (Inr \<lparr>rows = [row_obj (created_row (next_id db) a d c (Some x))], count = 1\<rparr>,
            db\<lparr>todos := todos db @ [created_row (next_id db) a d c (Some x)], next_id := next_id db + 1\<rparr>)"
  using store_ok_fresh[OF assms(1)] assms(2-3)
  by (simp_all add: pg_insert_def set_col_def blank_row_def created_row_def text_ok_literals)

text \<open>\<open>Todo.create\<close> on the reference database, for valid input: the entity returned and the
  world left behind.\<close>

lemma Todo_create_valid:
  assumes "store_ok (store w)" and "valid_create_input a d c due (clock w (ticks w))"
  shows "Todo_create pg (create_input a d c due) w
         = (Inr \<lparr>sql = pg,
                 props = convertToCase snakeToCamel
                           (row_obj (created_row (next_id (store w)) a d
                                       (createdAt_or c (clock w (ticks w))) due))\<rparr>,
            w\<lparr>store := (store w)\<lparr>todos := todos (store w)
                                     @ [created_row (next_id (store w)) a d
                                          (createdAt_or c (clock w (ticks w))) due],
                                   next_id := next_id (store w) + 1\<rparr>,
              ticks := (if nullish (field ''createdAt'' (create_input a d c due))
                        then Suc (ticks w) else ticks w),
              events := events w @
                [DbReserve,
                 DbQuery (Insert (convertToCase camelToSnake
                            (set_prop ''createdAt'' (Date (createdAt_or c (clock w (ticks w))))
                               (create_input a d c due)))),
                 DbRelease]\<rparr>)"
proof -
  have ta: "text_ok a" and td: "text_ok d" and ok: "createdAt_ok c"
    and st: "storable (createdAt_or c (clock w (ticks w)))"
    and sx: "case due of None \<Rightarrow> True | Some x \<Rightarrow> storable x"
    using assms(2) by (simp_all add: valid_create_input_def)
  note ins = pg_insert_new[OF assms(1) ta td]
  show ?thesis
  proof (cases due)
    case None
    from ok st show ?thesis
      by (cases c rule: createdAt_ok.cases)
         (simp_all add: None Todo_create_def create_input_def field_def get_prop_def bindE_def
            createUTCDate_def returnE_def sql_reserve_def connection_def connection_release_def
            pg_def insert_columns ins first_row_def row_props_def)
  next
    case (Some x)
    from ok st sx show ?thesis
      by (cases c rule: createdAt_ok.cases)
         (simp_all add: Some Todo_create_def create_input_def field_def get_prop_def bindE_def
            createUTCDate_def returnE_def sql_reserve_def connection_def connection_release_def
            pg_def insert_columns ins first_row_def row_props_def)
  qed
qed

lemma created_row_fields:
  "field ''status'' (convertToCase snakeToCamel (row_obj (created_row n a d c due))) = Str ''incomplete''"
  "field ''completedAt'' (convertToCase snakeToCamel (row_obj (created_row n a d c due))) = Null"
  "field ''createdAt'' (convertToCase snakeToCamel (row_obj (created_row n a d c due))) = Date c"
  "field ''title'' (convertToCase snakeToCamel (row_obj (created_row n a d c due))) = Str a"
  "field ''description'' (convertToCase snakeToCamel (row_obj (created_row n a d c due))) = Str d"
  by (simp_all add: props_of_row created_row_def field_def get_prop_def text_cell_def time_cell_def)

lemma storable_valid_time: "storable t \<Longrightarrow> valid_time t"
  by (simp add: storable_def valid_time_def)

text \<open>What \<open>createTodo\<close> hands to \<open>Todo.create\<close> for a valid body.\<close>

lemma createTodo_input:
  assumes "valid_create_body (date_parse w) b"
  shows "\<exists>a d due. field ''title'' b = Str a \<and> field ''description'' b = Str d
          \<and> text_ok a \<and> text_ok d \<and> (case due of None \<Rightarrow> True | Some x \<Rightarrow> storable x)
          \<and> with_dueAt b (createTodo_props b cr) w = (Inr (create_input a d (Some cr) due), w)"
proof -
  from assms obtain a d where a: "field ''title'' b = Str a" and d: "field ''description'' b = Str d"
    and ta: "text_ok a" and td: "text_ok d"
    unfolding valid_create_body_def
    by (cases "field ''title'' b"; cases "field ''description'' b") auto
  have due: "dueAt_ok (date_parse w) (field ''dueAt'' b)"
    using assms by (simp add: valid_create_body_def)
  have "\<exists>due. (case due of None \<Rightarrow> True | Some x \<Rightarrow> storable x)
          \<and> with_dueAt b (createTodo_props b cr) w = (Inr (create_input a d (Some cr) due), w)"
  proof (cases "truthy (field ''dueAt'' b)")
    case False
    then have "with_dueAt b (createTodo_props b cr) w = (Inr (create_input a d (Some cr) None), w)"
      by (simp add: with_dueAt_def returnE_def createTodo_props_def create_input_def a d)
    then show ?thesis
      by (intro exI[of _ None]) simp
  next
    case True
    with due obtain x where x: "fst (new_Date (field ''dueAt'' b) w) = Inr (Date x)"
      and sx: "storable x"
      by (cases "field ''dueAt'' b")
         (auto simp: new_Date_def js_date_def storable_valid_time split: option.splits)
    have "with_dueAt b (createTodo_props b cr) w = (Inr (create_input a d (Some cr) (Some x)), w)"
      using True x
      by (simp add: with_dueAt_def bindE_def new_Date_def createUTCDate_def returnE_def
          createTodo_props_def create_input_def a d)
    then show ?thesis
      using sx by (intro exI[of _ "Some x"]) simp
  qed
  then show ?thesis
    using a d ta td by blast
qed

text \<open>The statement \<open>Todo.create\<close> runs, for any driver that hands out a connection, when
  \<open>createdAt\<close> is provided.\<close>

lemma Todo_create_statement:
  assumes "reserve db (store w) = (None, s)" and "\<not> nullish (field ''createdAt'' ps)"
  shows "\<exists>es. events (snd (Todo_create db ps w))
           = events w @ DbReserve
               # DbQuery (Insert (convertToCase camelToSnake
                                    (set_prop ''createdAt'' (field ''createdAt'' ps) ps))) # es"
proof -
  let ?q = "Insert (convertToCase camelToSnake (set_prop ''createdAt'' (field ''createdAt'' ps) ps))"
  let ?w1 = "w\<lparr>store := s, events := events w @ [DbReserve]\<rparr>"
  let ?rest = "\<lambda>res. bindE (connection_release db) (\<lambda>_.
                    bindE (row_props (first_row res)) (\<lambda>ps'.
                    returnE \<lparr>sql = db, props = ps'\<rparr>))"
  have rest: "\<And>res. grows (?rest res)"
    by (intro grows_bindE grows_connection_release grows_row_props grows_returnE)
  have unfold: "Todo_create db ps w = bindE (connection db ?q) ?rest ?w1"
    using assms
    by (simp add: Todo_create_def bindE_def sql_reserve_def returnE_def)
  obtain r w2 where c: "connection db ?q ?w1 = (r, w2)"
    by (cases "connection db ?q ?w1")
  then have ev2: "events w2 = events w @ [DbReserve, DbQuery ?q]"
    by (auto simp: connection_def split: prod.splits)
  show ?thesis
  proof (cases r)
    case (Inl e)
    then show ?thesis
      by (simp add: unfold bindE_def c ev2)
  next
    case (Inr res)
    obtain r3 w3 where f: "?rest res w2 = (r3, w3)"
      by (cases "?rest res w2")
    obtain es where "events w3 = events w2 @ es"
      using growsD[OF rest f] by blast
    then show ?thesis
      using f by (simp add: unfold bindE_def c Inr ev2)
  qed
qed

lemma with_dueAt_shape:
  "\<exists>ps. with_dueAt b p w = (Inr ps, w) \<and> (ps = p \<or> (\<exists>u. ps = set_prop ''dueAt'' u p))"
  by (auto simp: with_dueAt_def bindE_def new_Date_def createUTCDate_def returnE_def)

lemma createTodo_statement:
  assumes "reserve this_sql (store w) = (None, s)"
  shows "\<exists>cols es. events (snd (createTodo this_sql req w))
                      = events w @ DbReserve # DbQuery (Insert cols) # es
           \<and> field ''status'' cols = Str ''incomplete''
           \<and> field ''created_at'' cols = Date (clock w (ticks w))
           \<and> get_prop ''completed_at'' cols = None
           \<and> field ''title'' cols = field ''title'' (body req)
           \<and> field ''description'' cols = field ''description'' (body req)"
proof -
  let ?now = "Date (clock w (ticks w))"
  let ?w0 = "w\<lparr>ticks := Suc (ticks w)\<rparr>"
  let ?p = "createTodo_props (body req) ?now"
  obtain ps where ps: "with_dueAt (body req) ?p ?w0 = (Inr ps, ?w0)"
    and shape: "ps = ?p \<or> (\<exists>u. ps = set_prop ''dueAt'' u ?p)"
    using with_dueAt_shape by blast
  let ?cols = "convertToCase camelToSnake (set_prop ''createdAt'' (field ''createdAt'' ps) ps)"
  have cr: "field ''createdAt'' ps = ?now"
    using shape by (auto simp: createTodo_props_def field_def get_prop_def)
  have cols: "field ''status'' ?cols = Str ''incomplete''
           \<and> field ''created_at'' ?cols = ?now
           \<and> get_prop ''completed_at'' ?cols = None
           \<and> field ''title'' ?cols = field ''title'' (body req)
           \<and> field ''description'' ?cols = field ''description'' (body req)"
    using shape unfolding cr
    by (auto simp: createTodo_props_def insert_columns) (simp_all add: field_def get_prop_def)
  have res: "reserve this_sql (store ?w0) = (None, s)"
    using assms by simp
  have nn: "\<not> nullish (field ''createdAt'' ps)"
    by (simp add: cr)
  obtain es where es: "events (snd (Todo_create this_sql ps ?w0))
           = events w @ DbReserve # DbQuery (Insert ?cols) # es"
    using Todo_create_statement[OF res nn] by auto
  obtain r w2 where c: "Todo_create this_sql ps ?w0 = (r, w2)"
    by (cases "Todo_create this_sql ps ?w0")
  have "\<exists>es'. events (snd (createTodo this_sql req w))
                 = events w @ DbReserve # DbQuery (Insert ?cols) # es'"
    using es by (cases r) (simp_all add: createTodo_unfold ps c)
  then show ?thesis
    using cols by blast
qed

text \<open>
  C7. For every request and any driver that hands out a connection, the statement
  \<open>createTodo\<close> makes \<open>Todo.create\<close> run inserts \<open>status = incomplete\<close>, \<open>created_at\<close> = the
  handler's reading of the clock, the body's \<open>title\<close> and \<open>description\<close>, and no
  \<open>completed_at\<close>. On the reference database, for every valid creation input, \<open>Todo.create\<close>
  stores one new row and returns the entity of that row: \<open>status\<close> is \<open>incomplete\<close>,
  \<open>completedAt\<close> is unset (\<open>null\<close>), and \<open>createdAt\<close> is the provided date or, when it is absent or
  nullish, the reading of the clock taken at creation. For every valid request body,
  \<open>createTodo\<close> is that call of \<open>Todo.create\<close> followed by one response, 201, carrying the
  properties of the entity returned.
\<close>

theorem create_entity_incomplete:
  "(reserve this_sql (store w) = (None, s) \<longrightarrow>
      (\<exists>cols es. events (snd (createTodo this_sql req w))
                      = events w @ DbReserve # DbQuery (Insert cols) # es
         \<and> field ''status'' cols = Str ''incomplete''
         \<and> field ''created_at'' cols = Date (clock w (ticks w))
         \<and> get_prop ''completed_at'' cols = None
         \<and> field ''title'' cols = field ''title'' (body req)
         \<and> field ''description'' cols = field ''description'' (body req)))
   \<and> (store_ok (store w) \<and> valid_create_input a d c due (clock w (ticks w)) \<longrightarrow>
      (\<exists>t w'. Todo_create pg (create_input a d c due) w = (Inr t, w')
         \<and> props t = convertToCase snakeToCamel
                        (row_obj (created_row (next_id (store w)) a d
                                    (createdAt_or c (clock w (ticks w))) due))
         \<and> field ''status'' (props t) = Str ''incomplete''
         \<and> field ''completedAt'' (props t) = Null
         \<and> field ''createdAt'' (props t) = Date (createdAt_or c (clock w (ticks w)))
         \<and> todos (store w') = todos (store w)
               @ [created_row (next_id (store w)) a d (createdAt_or c (clock w (ticks w))) due]))
   \<and> (store_ok (store w) \<and> valid_create_body (date_parse w) (body req)
       \<and> storable (clock w (ticks w)) \<longrightarrow>
      (\<exists>a' d' due' t w2.
         field ''title'' (body req) = Str a' \<and> field ''description'' (body req) = Str d'
         \<and> with_dueAt (body req) (createTodo_props (body req) (Date (clock w (ticks w))))
               (w\<lparr>ticks := Suc (ticks w)\<rparr>)
             = (Inr (create_input a' d' (Some (Date (clock w (ticks w)))) due'),
                w\<lparr>ticks := Suc (ticks w)\<rparr>)
         \<and> Todo_create pg (create_input a' d' (Some (Date (clock w (ticks w)))) due')
               (w\<lparr>ticks := Suc (ticks w)\<rparr>) = (Inr t, w2)
         \<and> createTodo pg req w
             = (Inr (), w2\<lparr>events := events w2 @
                  [Send \<lparr>statusCode = Created, message = ''Todo created successfully!'',
                         payload = TodoPayload (props t)\<rparr>]\<rparr>)
         \<and> sends (events w2) = sends (events w)
         \<and> props t = convertToCase snakeToCamel
                        (row_obj (created_row (next_id (store w)) a' d' (clock w (ticks w)) due'))
         \<and> field ''status'' (props t) = Str ''incomplete''
         \<and> field ''completedAt'' (props t) = Null
         \<and> field ''createdAt'' (props t) = Date (clock w (ticks w))
         \<and> todos (store w2) = todos (store w)
               @ [created_row (next_id (store w)) a' d' (clock w (ticks w)) due']))"
proof (intro conjI impI)
  assume "reserve this_sql (store w) = (None, s)"
  then show "\<exists>cols es. events (snd (createTodo this_sql req w))
                      = events w @ DbReserve # DbQuery (Insert cols) # es
         \<and> field ''status'' cols = Str ''incomplete''
         \<and> field ''created_at'' cols = Date (clock w (ticks w))
         \<and> get_prop ''completed_at'' cols = None
         \<and> field ''title'' cols = field ''title'' (body req)
         \<and> field ''description'' cols = field ''description'' (body req)"
    by (rule createTodo_statement)
next
  assume h: "store_ok (store w) \<and> valid_create_input a d c due (clock w (ticks w))"
  then have ok: "store_ok (store w)" and v: "valid_create_input a d c due (clock w (ticks w))"
    by simp_all
  show "\<exists>t w'. Todo_create pg (create_input a d c due) w = (Inr t, w')
         \<and> props t = convertToCase snakeToCamel
                        (row_obj (created_row (next_id (store w)) a d
                                    (createdAt_or c (clock w (ticks w))) due))
         \<and> field ''status'' (props t) = Str ''incomplete''
         \<and> field ''completedAt'' (props t) = Null
         \<and> field ''createdAt'' (props t) = Date (createdAt_or c (clock w (ticks w)))
         \<and> todos (store w') = todos (store w)
               @ [created_row (next_id (store w)) a d (createdAt_or c (clock w (ticks w))) due]"
    by (simp add: Todo_create_valid[OF ok v] created_row_fields)
next
  assume h: "store_ok (store w) \<and> valid_create_body (date_parse w) (body req)
       \<and> storable (clock w (ticks w))"
  let ?now = "clock w (ticks w)"
  let ?w0 = "w\<lparr>ticks := Suc (ticks w)\<rparr>"
  have ok: "store_ok (store ?w0)" and valid: "valid_create_body (date_parse ?w0) (body req)"
    and st: "storable ?now"
    using h by simp_all
  obtain a' d' due' where a: "field ''title'' (body req) = Str a'"
    and d: "field ''description'' (body req) = Str d'"
    and ta: "text_ok a'" and td: "text_ok d'"
    and sx: "case due' of None \<Rightarrow> True | Some x \<Rightarrow> storable x"
    and inp: "with_dueAt (body req) (createTodo_props (body req) (Date ?now)) ?w0
              = (Inr (create_input a' d' (Some (Date ?now)) due'), ?w0)"
    using createTodo_input[OF valid] by blast
  have v: "valid_create_input a' d' (Some (Date ?now)) due' (clock ?w0 (ticks ?w0))"
    using ta td sx st by (simp add: valid_create_input_def)
  let ?t = "\<lparr>sql = pg, props = convertToCase snakeToCamel
                 (row_obj (created_row (next_id (store w)) a' d' ?now due'))\<rparr>"
  obtain w2 where c: "Todo_create pg (create_input a' d' (Some (Date ?now)) due') ?w0 = (Inr ?t, w2)"
    and st2: "todos (store w2) = todos (store w) @ [created_row (next_id (store w)) a' d' ?now due']"
    using Todo_create_valid[OF ok v] by simp
  have q: "sends (events w2) = sends (events w)"
    using quietD[OF quiet_Todo_create c] by simp
  have r: "createTodo pg req w
             = (Inr (), w2\<lparr>events := events w2 @
                  [Send \<lparr>statusCode = Created, message = ''Todo created successfully!'',
                         payload = TodoPayload (props ?t)\<rparr>]\<rparr>)"
    by (simp add: createTodo_unfold inp c)
  show "\<exists>a' d' due' t w2.
         field ''title'' (body req) = Str a' \<and> field ''description'' (body req) = Str d'
         \<and> with_dueAt (body req) (createTodo_props (body req) (Date (clock w (ticks w))))
               (w\<lparr>ticks := Suc (ticks w)\<rparr>)
             = (Inr (create_input a' d' (Some (Date (clock w (ticks w)))) due'),
                w\<lparr>ticks := Suc (ticks w)\<rparr>)
         \<and> Todo_create pg (create_input a' d' (Some (Date (clock w (ticks w)))) due')
               (w\<lparr>ticks := Suc (ticks w)\<rparr>) = (Inr t, w2)
         \<and> createTodo pg req w
             = (Inr (), w2\<lparr>events := events w2 @
                  [Send \<lparr>statusCode = Created, message = ''Todo created successfully!'',
                         payload = TodoPayload (props t)\<rparr>]\<rparr>)
         \<and> sends (events w2) = sends (events w)
         \<and> props t = convertToCase snakeToCamel
                        (row_obj (created_row (next_id (store w)) a' d' (clock w (ticks w)) due'))
         \<and> field ''status'' (props t) = Str ''incomplete''
         \<and> field ''completedAt'' (props t) = Null
         \<and> field ''createdAt'' (props t) = Date (clock w (ticks w))
         \<and> todos (store w2) = todos (store w)
               @ [created_row (next_id (store w)) a' d' (clock w (ticks w)) due']"
    by (intro exI[of _ a'] exI[of _ d'] exI[of _ due'] exI[of _ ?t] exI[of _ w2])
       (simp add: a d inp c r q st2 created_row_fields)
qed

theorem create_entity_incomplete_witness:
  "reserve pg (store sample_world) = (None, store sample_world)
   \<and> store_ok (store sample_world)
   \<and> valid_create_input ''Buy milk'' ''2%'' None None (clock sample_world (ticks sample_world))
   \<and> fst (Todo_create pg (create_input ''Buy milk'' ''2%'' None None) sample_world)
       = Inr \<lparr>sql = pg,
              props = [(''id'', Num 1), (''title'', Str ''Buy milk''), (''description'', Str ''2%''),
                       (''status'', Str ''incomplete''), (''dueAt'', Null), (''createdAt'', Date 1000),
                       (''completedAt'', Null), (''editedAt'', Null)]\<rparr>
   \<and> valid_create_body (date_parse sample_world)
        (body (post_todos [(''title'', Str ''Buy milk''), (''description'', Str ''2%''),
                           (''dueAt'', Str ''2022-12-31'')]))
   \<and> storable (clock sample_world (ticks sample_world))
   \<and> events (snd (createTodo pg
               (post_todos [(''title'', Str ''Buy milk''), (''description'', Str ''2%''),
                            (''dueAt'', Str ''2022-12-31'')]) sample_world))
       = [DbReserve,
          DbQuery (Insert [(''title'', Str ''Buy milk''), (''description'', Str ''2%''),
                           (''status'', Str ''incomplete''), (''created_at'', Date 1000),
                           (''due_at'', Date 500)]),
          DbRelease,
          Send \<lparr>statusCode = Created, message = ''Todo created successfully!'',
                payload = TodoPayload
                            [(''id'', Num 1), (''title'', Str ''Buy milk''), (''description'', Str ''2%''),
                             (''status'', Str ''incomplete''), (''dueAt'', Date 500),
                             (''createdAt'', Date 1000), (''completedAt'', Null),
                             (''editedAt'', Null)]\<rparr>]
   \<and> todos (store (snd (createTodo pg
               (post_todos [(''title'', Str ''Buy milk''), (''description'', Str ''2%''),
                            (''dueAt'', Str ''2022-12-31'')]) sample_world)))
       = [created_row 1 ''Buy milk'' ''2%'' 1000 (Some 500)]"
proof -
  let ?req = "post_todos [(''title'', Str ''Buy milk''), (''description'', Str ''2%''),
                          (''dueAt'', Str ''2022-12-31'')]"
  have r: "reserve pg (store sample_world) = (None, store sample_world)"
    by (simp add: pg_def)
  have ok: "store_ok (store sample_world)"
    by (simp add: store_ok_def sample_world_def)
  have vi: "valid_create_input ''Buy milk'' ''2%'' None None (clock sample_world (ticks sample_world))"
    by (simp add: valid_create_input_def text_ok_def storable_def sample_world_def)
  have vb: "valid_create_body (date_parse sample_world) (body ?req)"
    by (simp add: valid_create_body_def post_todos_def field_def get_prop_def text_ok_def
        storable_def sample_world_def)
  have st: "storable (clock sample_world (ticks sample_world))"
    by (simp add: storable_def sample_world_def)
  have e: "fst (Todo_create pg (create_input ''Buy milk'' ''2%'' None None) sample_world)
       = Inr \<lparr>sql = pg,
              props = [(''id'', Num 1), (''title'', Str ''Buy milk''), (''description'', Str ''2%''),
                       (''status'', Str ''incomplete''), (''dueAt'', Null), (''createdAt'', Date 1000),
                       (''completedAt'', Null), (''editedAt'', Null)]\<rparr>"
    by (simp only: Todo_create_valid[OF ok vi])
       (simp add: props_of_row created_row_def sample_world_def text_cell_def time_cell_def)
  have vi2: "valid_create_input ''Buy milk'' ''2%'' (Some (Date 1000)) (Some 500)
               (clock (sample_world\<lparr>ticks := Suc 0\<rparr>) (ticks (sample_world\<lparr>ticks := Suc 0\<rparr>)))"
    by (simp add: valid_create_input_def text_ok_def storable_def)
  have ok2: "store_ok (store (sample_world\<lparr>ticks := Suc 0\<rparr>))"
    by (simp add: store_ok_def sample_world_def)
  have inp: "with_dueAt (body ?req) (createTodo_props (body ?req) (Date 1000))
               (sample_world\<lparr>ticks := Suc 0\<rparr>)
             = (Inr (create_input ''Buy milk'' ''2%'' (Some (Date 1000)) (Some 500)),
                sample_world\<lparr>ticks := Suc 0\<rparr>)"
    by (simp add: with_dueAt_def post_todos_def createTodo_props_def create_input_def field_def
        get_prop_def bindE_def new_Date_def js_date_def valid_time_def createUTCDate_def
        returnE_def sample_world_def)
  have now: "clock sample_world (ticks sample_world) = 1000"
    and w0: "sample_world\<lparr>ticks := Suc (ticks sample_world)\<rparr> = sample_world\<lparr>ticks := Suc 0\<rparr>"
    by (simp_all add: sample_world_def)
  have c: "createTodo pg ?req sample_world
           = (case Todo_create pg (create_input ''Buy milk'' ''2%'' (Some (Date 1000)) (Some 500))
                     (sample_world\<lparr>ticks := Suc 0\<rparr>) of
                (Inl e, w2) \<Rightarrow>
                  (Inr (), w2\<lparr>events := events w2 @
                     [ConsoleError (''Error while creating todo: '' @ error_text e),
                      Send \<lparr>statusCode = InternalServerError, message = ''Error while creating todo'',
                            payload = NoPayload\<rparr>]\<rparr>)
              | (Inr t, w2) \<Rightarrow>
                  (Inr (), w2\<lparr>events := events w2 @
                     [Send \<lparr>statusCode = Created, message = ''Todo created successfully!'',
                            payload = TodoPayload (props t)\<rparr>]\<rparr>))"
    by (simp add: createTodo_unfold now w0 inp)
  have ev: "events (snd (createTodo pg ?req sample_world))
       = [DbReserve,
          DbQuery (Insert [(''title'', Str ''Buy milk''), (''description'', Str ''2%''),
                           (''status'', Str ''incomplete''), (''created_at'', Date 1000),
                           (''due_at'', Date 500)]),
          DbRelease,
          Send \<lparr>statusCode = Created, message = ''Todo created successfully!'',
                payload = TodoPayload
                            [(''id'', Num 1), (''title'', Str ''Buy milk''), (''description'', Str ''2%''),
                             (''status'', Str ''incomplete''), (''dueAt'', Date 500),
                             (''createdAt'', Date 1000), (''completedAt'', Null),
                             (''editedAt'', Null)]\<rparr>]"
    by (simp only: c Todo_create_valid[OF ok2 vi2])
       (simp add: props_of_row created_row_def sample_world_def text_cell_def time_cell_def
          create_input_def insert_columns)
  have stf: "todos (store (snd (createTodo pg ?req sample_world)))
       = [created_row 1 ''Buy milk'' ''2%'' 1000 (Some 500)]"
    by (simp only: c Todo_create_valid[OF ok2 vi2]) (simp add: sample_world_def)
  show ?thesis
    using create_entity_incomplete[of pg sample_world "store sample_world" ?req
        "''Buy milk''" "''2%''" None None] r ok vi vb st e ev stf
    by simp
qed

section \<open>Completion\<close>












end
